theory Spec2Isabelle
  imports Main "HOL-Library.Word"
begin

section \<open>The wasm module of the simulator (src/modules/wasm.ts)\<close>

text \<open>
  A shallow embedding of the class \<open>WasmModule\<close>. The module keeps two counters and a
  cache of virtual machines beside the chain it belongs to; the chain holds the store,
  an immutable map that is snapshotted by keeping a reference and reverted by assigning
  that reference back.

  What the source takes from other packages is a parameter of the embedding (the record
  \<open>externals\<close>): the hash and the address encoding, the text of a number, the binary
  encoding of messages, the four entry points of a contract's virtual machine, and the
  handler of the messages that the chain's router gives to modules other than this one.

  Two outputs of the source are left out, since no branch of the source reads them: the
  \<open>trace\<close> list each entry point appends one record to, and the debug logs of a virtual
  machine that those records carry.
\<close>

subsection \<open>Data\<close>

type_synonym byte = "8 word"
type_synonym bytes = "byte list"

text \<open>\<open>Binary\<close> is a base64 string; a decoded message (\<open>any\<close> in the source) is kept opaque.\<close>

type_synonym binary = string
type_synonym json = string

text \<open>The working storage of a contract: \<open>Map<string, string>\<close>.\<close>

type_synonym dict = "string \<rightharpoonup> string"

record attribute =
  attr_key :: string
  attr_value :: string

record coin =
  denom :: string
  amount :: string

record event =
  ev_type :: string
  ev_attributes :: "attribute list"

record execute =
  exec_contract_addr :: string
  exec_msg :: binary
  exec_funds :: "coin list"

record instantiate =
  inst_admin :: "string option"
  inst_code_id :: int
  inst_msg :: binary
  inst_funds :: "coin list"
  inst_label :: string

text \<open>
  \<open>WasmMsg\<close> is a union of two object shapes told apart by the key they carry; an
  object with neither key reaches the last branch of \<open>handleMsg\<close>.
\<close>

datatype wasm_msg =
    Execute execute
  | Instantiate instantiate
  | UnknownWasmMsg

record smart_query =
  smart_contract_addr :: string
  smart_msg :: binary

record raw_query =
  raw_contract_addr :: string
  raw_key :: binary

record contract_info_query =
  info_contract_addr :: string

datatype wasm_query =
    Smart smart_query
  | Raw raw_query
  | ContractInfoQuery contract_info_query
  | UnknownWasmQuery

text \<open>
  A message for the chain's router: one for this module, or one for another module
  (bank, staking), kept opaque.
\<close>

datatype cosmos_msg =
    Wasm wasm_msg
  | OtherModule json

datatype reply_on = Always | Error | Never | Success

record sub_msg =
  sub_id :: nat
  sub_msg :: cosmos_msg
  gas_limit :: "nat option"
  reply_on :: reply_on

record contract_response =
  messages :: "sub_msg list"
  attributes :: "attribute list"
  events :: "event list"
  data :: "binary option"

record app_response =
  app_events :: "event list"
  app_data :: "binary option"

text \<open>\<open>RustResult<T>\<close> is \<open>{ ok: T } | { error: string }\<close>; \<open>Result<T, string>\<close> is from ts-results.\<close>

datatype 'a rust_result = RustOk 'a | RustError string

datatype 'a result = Ok 'a | Err string

record reply_msg =
  reply_id :: nat
  reply_result :: "app_response rust_result"

record code_info =
  code_creator :: string
  wasmCode :: bytes

record contract_info =
  codeId :: int
  creator :: string
  admin :: "string option"
  label :: string
  created :: nat

record contract_info_response =
  resp_code_id :: int
  resp_creator :: string
  resp_admin :: "string option"
  resp_ibc_port :: "string option"
  resp_pinned :: bool

record block_info =
  block_height :: nat
  block_time :: string
  chain_id :: string

record contract_ref =
  address :: string

record execute_env =
  block :: block_info
  contract :: contract_ref

record message_info =
  sender :: string
  funds :: "coin list"

text \<open>
  The value of \<open>chain.store\<close>: the three maps under the key \<open>wasm\<close>, and the keys of
  the other modules.
\<close>

record chain_store =
  codes :: "int \<rightharpoonup> code_info"
  contracts :: "string \<rightharpoonup> contract_info"
  contractStorage :: "string \<rightharpoonup> dict"
  other_modules :: "string \<rightharpoonup> json"

text \<open>The fields of \<open>CWSimulateApp\<close> that the module reads or writes.\<close>

record chain =
  store :: chain_store
  height :: nat
  time :: nat
  chainId :: string
  bech32Prefix :: string

text \<open>
  A cached \<open>CWSimulateVMInstance\<close>: the bytecode it was built from and the map of its
  backend storage (\<open>vm.backend.storage.dict\<close>), which the machine keeps between calls.
\<close>

record vm_instance =
  vm_wasmCode :: bytes
  vm_storage :: dict

text \<open>
  The state of the module. The counters and the code ids are JavaScript numbers; they
  are modelled as integers, which is what they are below \<open>2^53\<close>.
\<close>

record wasm_module =
  chain :: chain
  lastCodeId :: int
  lastInstanceId :: int
  vms :: "string \<rightharpoonup> vm_instance"

text \<open>
  A call of the source returns, throws, or (in the embedding only) runs out of the fuel
  that bounds the nesting of submessages. The state is returned in all three cases: an
  exception leaves the mutations made before it.
\<close>

datatype 'a outcome = Returned 'a | Thrown string | OutOfFuel

text \<open>
  The imported and built-in functions. \<open>number_toString\<close> is the text JavaScript gives
  a number in a template string and by \<open>toString\<close>, \<open>number_toFixed\<close> the one it gives by
  \<open>toFixed()\<close>. An entry point of a virtual machine is given the bytecode, the chain
  (which its querier can read), the arguments of the call and the working storage, and
  gives back its JSON result and the working storage it leaves.
\<close>

record externals =
  sha256 :: "bytes \<Rightarrow> bytes"
  toBech32 :: "string \<Rightarrow> bytes \<Rightarrow> string"
  number_toString :: "int \<Rightarrow> string"
  number_toFixed :: "nat \<Rightarrow> string"
  fromBinary :: "binary \<Rightarrow> json"
  toBinary_result :: "json result \<Rightarrow> binary"
  toBinary_info :: "contract_info_response \<Rightarrow> binary"
  vm_instantiate :: "bytes \<Rightarrow> chain \<Rightarrow> execute_env \<Rightarrow> message_info \<Rightarrow> json \<Rightarrow> dict
                       \<Rightarrow> contract_response rust_result \<times> dict"
  vm_execute :: "bytes \<Rightarrow> chain \<Rightarrow> execute_env \<Rightarrow> message_info \<Rightarrow> json \<Rightarrow> dict
                       \<Rightarrow> contract_response rust_result \<times> dict"
  vm_reply :: "bytes \<Rightarrow> chain \<Rightarrow> execute_env \<Rightarrow> reply_msg \<Rightarrow> dict
                       \<Rightarrow> contract_response rust_result \<times> dict"
  vm_query :: "bytes \<Rightarrow> chain \<Rightarrow> execute_env \<Rightarrow> json \<Rightarrow> dict
                       \<Rightarrow> binary rust_result \<times> dict"
  other_handleMsg :: "wasm_module \<Rightarrow> string \<Rightarrow> json
                       \<Rightarrow> app_response result outcome \<times> wasm_module"

subsection \<open>Numbers as bytes\<close>

text \<open>
  \<open>DataView.setUint32(off, n, false)\<close>: \<open>n\<close> is taken modulo \<open>2^32\<close> and stored in four
  bytes at \<open>off\<close>, the most significant first.
\<close>

definition setUint32 :: "bytes \<Rightarrow> nat \<Rightarrow> int \<Rightarrow> bytes" where
  "setUint32 buf off n =
     (let w = n mod 2 ^ 32 in
      take off buf @
      [word_of_int (w div 2 ^ 24), word_of_int (w div 2 ^ 16),
       word_of_int (w div 2 ^ 8), word_of_int w] @
      drop (off + 4) buf)"

definition numberToBigEndianUint64 :: "int \<Rightarrow> bytes" where
  "numberToBigEndianUint64 n =
     (let buffer = replicate 8 0;
          view = setUint32 buffer 0 n;
          view = setUint32 view 4 0
      in view)"

definition utf8 :: "string \<Rightarrow> bytes" where
  "utf8 s = map of_char s"

subsection \<open>Addresses\<close>

definition buildContractAddress :: "externals \<Rightarrow> int \<Rightarrow> int \<Rightarrow> bytes" where
  "buildContractAddress ext codeId' instanceId =
     (let contractId = numberToBigEndianUint64 codeId' @ numberToBigEndianUint64 instanceId;
          mKey = utf8 ''wasm'' @ [0];
          payload = mKey @ contractId;
          th = sha256 ext (utf8 ''module'');
          hash = sha256 ext (th @ payload)
      in take 20 hash)"

subsection \<open>The store\<close>

definition set_store :: "wasm_module \<Rightarrow> chain_store \<Rightarrow> wasm_module" where
  "set_store st s = st\<lparr>chain := (chain st)\<lparr>store := s\<rparr>\<rparr>"

definition setContractStorage :: "wasm_module \<Rightarrow> string \<Rightarrow> dict \<Rightarrow> wasm_module" where
  "setContractStorage st contractAddress v =
     set_store st ((store (chain st))
       \<lparr>contractStorage := (contractStorage (store (chain st)))(contractAddress \<mapsto> v)\<rparr>)"

definition getContractStorage :: "wasm_module \<Rightarrow> string \<Rightarrow> dict" where
  "getContractStorage st contractAddress =
     (case contractStorage (store (chain st)) contractAddress of
        None \<Rightarrow> Map.empty
      | Some existing \<Rightarrow> existing)"

definition setCodeInfo :: "wasm_module \<Rightarrow> int \<Rightarrow> code_info \<Rightarrow> wasm_module" where
  "setCodeInfo st cid codeInfo =
     set_store st ((store (chain st))\<lparr>codes := (codes (store (chain st)))(cid \<mapsto> codeInfo)\<rparr>)"

definition getCodeInfo :: "wasm_module \<Rightarrow> int \<Rightarrow> code_info option" where
  "getCodeInfo st cid = codes (store (chain st)) cid"

definition setContractInfo :: "wasm_module \<Rightarrow> string \<Rightarrow> contract_info \<Rightarrow> wasm_module" where
  "setContractInfo st contractAddress contractInfo =
     set_store st ((store (chain st))
       \<lparr>contracts := (contracts (store (chain st)))(contractAddress \<mapsto> contractInfo)\<rparr>)"

definition getContractInfo :: "wasm_module \<Rightarrow> string \<Rightarrow> contract_info option" where
  "getContractInfo st contractAddress = contracts (store (chain st)) contractAddress"

definition deleteContractInfo :: "wasm_module \<Rightarrow> string \<Rightarrow> wasm_module" where
  "deleteContractInfo st contractAddress =
     set_store st ((store (chain st))
       \<lparr>contracts := (contracts (store (chain st)))(contractAddress := None)\<rparr>)"

definition create :: "wasm_module \<Rightarrow> string \<Rightarrow> bytes \<Rightarrow> int \<times> wasm_module" where
  "create st creator' wasmCode' =
     (let codeInfo = \<lparr>code_creator = creator', wasmCode = wasmCode'\<rparr>;
          st1 = setCodeInfo st (lastCodeId st + 1) codeInfo;
          st2 = st1\<lparr>lastCodeId := lastCodeId st1 + 1\<rparr>
      in (lastCodeId st2, st2))"

definition getExecutionEnv :: "externals \<Rightarrow> wasm_module \<Rightarrow> string \<Rightarrow> execute_env" where
  "getExecutionEnv ext st contractAddress =
     \<lparr>block = \<lparr>block_height = height (chain st),
               block_time = number_toFixed ext (time (chain st)),
               chain_id = chainId (chain st)\<rparr>,
      contract = \<lparr>address = contractAddress\<rparr>\<rparr>"

subsection \<open>Virtual machines\<close>

text \<open>
  The cache \<open>this.vms\<close> is a plain object, so it inherits the properties of
  \<open>Object.prototype\<close>: for these names \<open>contractAddress in this.vms\<close> is true and
  \<open>this.vms[contractAddress]\<close> is the inherited value, which is truthy and is no machine,
  whether or not a machine was cached. \<open>vms st\<close> holds the own properties, which only
  \<open>buildVM\<close> adds, and never under an inherited name. \<open>vms_get\<close> is
  \<open>this.vms[contractAddress]\<close>, with \<open>None\<close> for \<open>undefined\<close>.
\<close>

definition object_prototype_names :: "string list" where
  "object_prototype_names =
     [''constructor'', ''__defineGetter__'', ''__defineSetter__'', ''hasOwnProperty'',
      ''__lookupGetter__'', ''__lookupSetter__'', ''isPrototypeOf'',
      ''propertyIsEnumerable'', ''toString'', ''valueOf'', ''__proto__'',
      ''toLocaleString'']"

datatype vm_value = VM vm_instance | InheritedValue

definition vms_in :: "wasm_module \<Rightarrow> string \<Rightarrow> bool" where
  "vms_in st contractAddress =
     (vms st contractAddress \<noteq> None \<or> contractAddress \<in> set object_prototype_names)"

definition vms_get :: "wasm_module \<Rightarrow> string \<Rightarrow> vm_value option" where
  "vms_get st contractAddress =
     (case vms st contractAddress of
        Some vm \<Rightarrow> Some (VM vm)
      | None \<Rightarrow>
          if contractAddress \<in> set object_prototype_names then Some InheritedValue else None)"

definition buildVM :: "externals \<Rightarrow> wasm_module \<Rightarrow> string
    \<Rightarrow> vm_value option outcome \<times> wasm_module" where
  "buildVM ext st contractAddress =
     (if \<not> vms_in st contractAddress then
        (case getContractInfo st contractAddress of
           None \<Rightarrow> (Thrown (''contract '' @ contractAddress @ '' not found''), st)
         | Some contractInfo \<Rightarrow>
            (case getCodeInfo st (codeId contractInfo) of
               None \<Rightarrow>
                 (Thrown (''code '' @ number_toString ext (codeId contractInfo)
                            @ '' not found''), st)
             | Some codeInfo \<Rightarrow>
                 (let contractState = getContractStorage st contractAddress;
                      vm = \<lparr>vm_wasmCode = wasmCode codeInfo, vm_storage = contractState\<rparr>
                  in (Returned (Some (VM vm)), st\<lparr>vms := (vms st)(contractAddress \<mapsto> vm)\<rparr>))))
      else (Returned (vms_get st contractAddress), st))"

definition registerContractInstance :: "externals \<Rightarrow> wasm_module \<Rightarrow> string \<Rightarrow> int \<Rightarrow> string \<times> wasm_module" where
  "registerContractInstance ext st sender' codeId' =
     (let contractAddressHash = buildContractAddress ext codeId' (lastInstanceId st + 1);
          contractAddress = toBech32 ext (bech32Prefix (chain st)) contractAddressHash;
          contractInfo = \<lparr>codeId = codeId', creator = sender', admin = None, label = '''',
                          created = height (chain st)\<rparr>;
          st1 = setContractInfo st contractAddress contractInfo;
          st2 = setContractStorage st1 contractAddress Map.empty;
          st3 = st2\<lparr>lastInstanceId := lastInstanceId st2 + 1\<rparr>
      in (contractAddress, st3))"

text \<open>
  The three calls into a machine. The machine works on its own storage; after the call
  the module copies that storage into the store. On an inherited value the method that
  the source calls first does not exist, and the call is a \<open>TypeError\<close> (with the
  message of the engine).
\<close>

definition callInstantiate :: "externals \<Rightarrow> wasm_module \<Rightarrow> string \<Rightarrow> coin list \<Rightarrow> string \<Rightarrow> json
    \<Rightarrow> contract_response rust_result outcome \<times> wasm_module" where
  "callInstantiate ext st sender' funds' contractAddress instantiateMsg =
     (case buildVM ext st contractAddress of
        (Thrown e, st1) \<Rightarrow> (Thrown e, st1)
      | (OutOfFuel, st1) \<Rightarrow> (OutOfFuel, st1)
      | (Returned None, st1) \<Rightarrow>
          (Thrown ''TypeError: Cannot read properties of undefined (reading instantiate)'', st1)
      | (Returned (Some InheritedValue), st1) \<Rightarrow>
          (Thrown ''TypeError: vm.instantiate is not a function'', st1)
      | (Returned (Some (VM vm)), st1) \<Rightarrow>
          (let env = getExecutionEnv ext st1 contractAddress;
               info = \<lparr>sender = sender', funds = funds'\<rparr>;
               (res, d) = vm_instantiate ext (vm_wasmCode vm) (chain st1) env info
                            instantiateMsg (vm_storage vm);
               st2 = st1\<lparr>vms := (vms st1)(contractAddress \<mapsto> vm\<lparr>vm_storage := d\<rparr>)\<rparr>;
               st3 = setContractStorage st2 contractAddress d
           in (Returned res, st3)))"

definition callExecute :: "externals \<Rightarrow> wasm_module \<Rightarrow> string \<Rightarrow> coin list \<Rightarrow> string \<Rightarrow> json
    \<Rightarrow> contract_response rust_result outcome \<times> wasm_module" where
  "callExecute ext st sender' funds' contractAddress executeMsg =
     (case vms_get st contractAddress of
        None \<Rightarrow> (Thrown (''No VM for contract '' @ contractAddress), st)
      | Some InheritedValue \<Rightarrow>
          (Thrown ''TypeError: vm.resetDebugInfo is not a function'', st)
      | Some (VM vm) \<Rightarrow>
          (let env = getExecutionEnv ext st contractAddress;
               info = \<lparr>sender = sender', funds = funds'\<rparr>;
               (res, d) = vm_execute ext (vm_wasmCode vm) (chain st) env info
                            executeMsg (vm_storage vm);
               st1 = st\<lparr>vms := (vms st)(contractAddress \<mapsto> vm\<lparr>vm_storage := d\<rparr>)\<rparr>;
               st2 = setContractStorage st1 contractAddress d
           in (Returned res, st2)))"

definition callReply :: "externals \<Rightarrow> wasm_module \<Rightarrow> string \<Rightarrow> reply_msg
    \<Rightarrow> contract_response rust_result outcome \<times> wasm_module" where
  "callReply ext st contractAddress replyMsg =
     (case vms_get st contractAddress of
        None \<Rightarrow> (Thrown (''No VM for contract '' @ contractAddress), st)
      | Some InheritedValue \<Rightarrow> (Thrown ''TypeError: vm.reply is not a function'', st)
      | Some (VM vm) \<Rightarrow>
          (let (res, d) = vm_reply ext (vm_wasmCode vm) (chain st)
                            (getExecutionEnv ext st contractAddress) replyMsg (vm_storage vm);
               st1 = st\<lparr>vms := (vms st)(contractAddress \<mapsto> vm\<lparr>vm_storage := d\<rparr>)\<rparr>;
               st2 = setContractStorage st1 contractAddress d
           in (Returned res, st2)))"

text \<open>
  \<open>query\<close> calls the machine and writes nothing back: whatever the machine does to its
  own working storage stays in the machine.
\<close>

definition query :: "externals \<Rightarrow> wasm_module \<Rightarrow> string \<Rightarrow> json \<Rightarrow> json result outcome \<times> wasm_module" where
  "query ext st contractAddress queryMsg =
     (case vms_get st contractAddress of
        None \<Rightarrow> (Thrown (''No VM for contract '' @ contractAddress), st)
      | Some InheritedValue \<Rightarrow> (Thrown ''TypeError: vm.query is not a function'', st)
      | Some (VM vm) \<Rightarrow>
          (let env = getExecutionEnv ext st contractAddress;
               (res, d) = vm_query ext (vm_wasmCode vm) (chain st) env queryMsg (vm_storage vm);
               st1 = st\<lparr>vms := (vms st)(contractAddress \<mapsto> vm\<lparr>vm_storage := d\<rparr>)\<rparr>
           in (Returned (case res of
                           RustOk v \<Rightarrow> Ok (fromBinary ext v)
                         | RustError e \<Rightarrow> Err e), st1)))"

subsection \<open>Events of a call\<close>

text \<open>The loop of \<open>buildAppResponse\<close> that pushes one event for each event of the contract.\<close>

fun push_events :: "string \<Rightarrow> event list \<Rightarrow> event list \<Rightarrow> event list" where
  "push_events contract' appEvents [] = appEvents"
| "push_events contract' appEvents (e # es) =
     push_events contract'
       (appEvents @
         [\<lparr>ev_type = ''wasm-'' @ ev_type e,
           ev_attributes = \<lparr>attr_key = ''_contract_addr'', attr_value = contract'\<rparr>
                             # ev_attributes e\<rparr>])
       es"

definition buildAppResponse :: "string \<Rightarrow> event \<Rightarrow> contract_response \<Rightarrow> app_response" where
  "buildAppResponse contract' customEvent response =
     (let appEvents = [];
          appEvents = appEvents @ [customEvent];
          appEvents =
            (if length (attributes response) > 0
             then appEvents @
                    [\<lparr>ev_type = ''wasm'',
                      ev_attributes = \<lparr>attr_key = ''_contract_addr'', attr_value = contract'\<rparr>
                                        # attributes response\<rparr>]
             else appEvents);
          appEvents = push_events contract' appEvents (events response)
      in \<lparr>app_events = appEvents, app_data = data response\<rparr>)"

subsection \<open>Messages, submessages and replies\<close>

text \<open>
  The entry points call each other: a contract's response carries submessages, each is
  given to the chain's router, which comes back to \<open>handleMsg\<close>, and a reply is an entry
  point of its own with submessages of its own. Nothing in the source bounds the nesting,
  so the embedding carries fuel, spent by \<open>executeSubmsg\<close>; running out of it is the
  outcome \<open>OutOfFuel\<close>, which no call of the source has.
  \<open>handleContractResponse_loop\<close> is the \<open>for\<close> loop of \<open>handleContractResponse\<close>, with
  the snapshot taken before it.
\<close>

text \<open>
  Modelled from the spec: \<open>chain_handleMsg\<close> is the router \<open>CWSimulateApp.handleMsg\<close>,
  which \<open>executeSubmsg\<close> calls as \<open>this.chain.handleMsg\<close> and whose source is missing
  (only \<open>src/modules/wasm.ts\<close> is at hand). A wasm message goes to \<open>handleMsg\<close> of this
  module; a message of another module goes to that module's handler, which is a
  parameter.
\<close>

function
    chain_handleMsg :: "nat \<Rightarrow> externals \<Rightarrow> wasm_module \<Rightarrow> string \<Rightarrow> cosmos_msg
      \<Rightarrow> app_response result outcome \<times> wasm_module"
and handleMsg :: "nat \<Rightarrow> externals \<Rightarrow> wasm_module \<Rightarrow> string \<Rightarrow> wasm_msg
      \<Rightarrow> app_response result outcome \<times> wasm_module"
and instantiateContract :: "nat \<Rightarrow> externals \<Rightarrow> wasm_module \<Rightarrow> string \<Rightarrow> coin list \<Rightarrow> int \<Rightarrow> json
      \<Rightarrow> app_response result outcome \<times> wasm_module"
and executeContract :: "nat \<Rightarrow> externals \<Rightarrow> wasm_module \<Rightarrow> string \<Rightarrow> coin list \<Rightarrow> string \<Rightarrow> json
      \<Rightarrow> app_response result outcome \<times> wasm_module"
and handleContractResponse :: "nat \<Rightarrow> externals \<Rightarrow> wasm_module \<Rightarrow> string \<Rightarrow> sub_msg list
      \<Rightarrow> app_response \<Rightarrow> app_response result outcome \<times> wasm_module"
and handleContractResponse_loop :: "nat \<Rightarrow> externals \<Rightarrow> chain_store \<Rightarrow> wasm_module \<Rightarrow> string
      \<Rightarrow> sub_msg list \<Rightarrow> app_response \<Rightarrow> app_response result outcome \<times> wasm_module"
and executeSubmsg :: "nat \<Rightarrow> externals \<Rightarrow> wasm_module \<Rightarrow> string \<Rightarrow> sub_msg
      \<Rightarrow> app_response result outcome \<times> wasm_module"
and reply :: "nat \<Rightarrow> externals \<Rightarrow> wasm_module \<Rightarrow> string \<Rightarrow> reply_msg
      \<Rightarrow> app_response result outcome \<times> wasm_module"
where
  "chain_handleMsg fuel ext st sender' cmsg =
     (case cmsg of
        Wasm wasm \<Rightarrow> handleMsg fuel ext st sender' wasm
      | OtherModule m \<Rightarrow> other_handleMsg ext st sender' m)"
| "handleMsg fuel ext st sender' wasm =
     (case wasm of
        Execute e \<Rightarrow>
          executeContract fuel ext st sender' (exec_funds e) (exec_contract_addr e)
            (fromBinary ext (exec_msg e))
      | Instantiate i \<Rightarrow>
          instantiateContract fuel ext st sender' (inst_funds i) (inst_code_id i)
            (fromBinary ext (inst_msg i))
      | UnknownWasmMsg \<Rightarrow> (Thrown ''Unknown wasm message'', st))"
| "instantiateContract fuel ext st sender' funds' codeId' instantiateMsg =
     (let snapshot = store (chain st);
          (contractAddress, st1) = registerContractInstance ext st sender' codeId'
      in case callInstantiate ext st1 sender' funds' contractAddress instantiateMsg of
           (Thrown e, st2) \<Rightarrow> (Thrown e, st2)
         | (OutOfFuel, st2) \<Rightarrow> (OutOfFuel, st2)
         | (Returned (RustError e), st2) \<Rightarrow>
             (let st3 = st2\<lparr>lastInstanceId := lastInstanceId st2 - 1\<rparr>;
                  st4 = deleteContractInfo st3 contractAddress;
                  st5 = set_store st4 snapshot
              in (Returned (Err e), st5))
         | (Returned (RustOk response), st2) \<Rightarrow>
             (let customEvent =
                    \<lparr>ev_type = ''instantiate'',
                     ev_attributes =
                       [\<lparr>attr_key = ''_contract_address'', attr_value = contractAddress\<rparr>,
                        \<lparr>attr_key = ''code_id'', attr_value = number_toString ext codeId'\<rparr>]\<rparr>;
                  res = buildAppResponse contractAddress customEvent response
              in handleContractResponse fuel ext st2 contractAddress (messages response) res))"
| "executeContract fuel ext st sender' funds' contractAddress executeMsg =
     (let snapshot = store (chain st)
      in case callExecute ext st sender' funds' contractAddress executeMsg of
           (Thrown e, st1) \<Rightarrow> (Thrown e, st1)
         | (OutOfFuel, st1) \<Rightarrow> (OutOfFuel, st1)
         | (Returned (RustError e), st1) \<Rightarrow> (Returned (Err e), set_store st1 snapshot)
         | (Returned (RustOk response), st1) \<Rightarrow>
             (let customEvent =
                    \<lparr>ev_type = ''execute'',
                     ev_attributes =
                       [\<lparr>attr_key = ''_contract_addr'', attr_value = contractAddress\<rparr>]\<rparr>;
                  res = buildAppResponse contractAddress customEvent response
              in handleContractResponse fuel ext st1 contractAddress (messages response) res))"
| "handleContractResponse fuel ext st contractAddress msgs res =
     (let snapshot = store (chain st)
      in handleContractResponse_loop fuel ext snapshot st contractAddress msgs res)"
| "handleContractResponse_loop fuel ext snapshot st contractAddress [] res =
     (Returned (Ok \<lparr>app_events = app_events res, app_data = app_data res\<rparr>), st)"
| "handleContractResponse_loop fuel ext snapshot st contractAddress (message # rest) res =
     (case executeSubmsg fuel ext st contractAddress message of
        (Thrown e, st1) \<Rightarrow> (Thrown e, st1)
      | (OutOfFuel, st1) \<Rightarrow> (OutOfFuel, st1)
      | (Returned (Err e), st1) \<Rightarrow> (Returned (Err e), set_store st1 snapshot)
      | (Returned (Ok subres), st1) \<Rightarrow>
          (let res1 = res\<lparr>app_events := app_events res @ app_events subres\<rparr>;
               res2 = (case app_data subres of
                         None \<Rightarrow> res1
                       | Some d \<Rightarrow> res1\<lparr>app_data := Some d\<rparr>)
           in handleContractResponse_loop fuel ext snapshot st1 contractAddress rest res2))"
| "executeSubmsg 0 ext st contractAddress message = (OutOfFuel, st)"
| "executeSubmsg (Suc fuel) ext st contractAddress message =
     (case chain_handleMsg fuel ext st contractAddress (sub_msg message) of
        (Thrown e, st1) \<Rightarrow> (Thrown e, st1)
      | (OutOfFuel, st1) \<Rightarrow> (OutOfFuel, st1)
      | (Returned (Ok r), st1) \<Rightarrow>
          (if reply_on message = Success \<or> reply_on message = Always then
             (let replyMsg = \<lparr>reply_id = sub_id message,
                              reply_result = RustOk \<lparr>app_events = app_events r,
                                                     app_data = app_data r\<rparr>\<rparr>
              in case reply fuel ext st1 contractAddress replyMsg of
                   (Thrown e, st2) \<Rightarrow> (Thrown e, st2)
                 | (OutOfFuel, st2) \<Rightarrow> (OutOfFuel, st2)
                 | (Returned (Err e), st2) \<Rightarrow> (Returned (Err e), st2)
                 | (Returned (Ok replyRes), st2) \<Rightarrow>
                     (let data' = (case app_data replyRes of
                                     None \<Rightarrow> app_data r
                                   | Some d \<Rightarrow> Some d);
                          events' = app_events r @ app_events replyRes
                      in (Returned (Ok \<lparr>app_events = events', app_data = data'\<rparr>), st2)))
           else (Returned (Ok \<lparr>app_events = app_events r, app_data = None\<rparr>), st1))
      | (Returned (Err e), st1) \<Rightarrow>
          (if reply_on message = Error \<or> reply_on message = Always then
             (let replyMsg = \<lparr>reply_id = sub_id message, reply_result = RustError e\<rparr>
              in case reply fuel ext st1 contractAddress replyMsg of
                   (Thrown e', st2) \<Rightarrow> (Thrown e', st2)
                 | (OutOfFuel, st2) \<Rightarrow> (OutOfFuel, st2)
                 | (Returned (Err e'), st2) \<Rightarrow> (Returned (Err e'), st2)
                 | (Returned (Ok replyRes), st2) \<Rightarrow>
                     (Returned (Ok \<lparr>app_events = app_events replyRes,
                                    app_data = app_data replyRes\<rparr>), st2))
           else (Returned (Err e), st1)))"
| "reply fuel ext st contractAddress replyMsg =
     (case callReply ext st contractAddress replyMsg of
        (Thrown e, st1) \<Rightarrow> (Thrown e, st1)
      | (OutOfFuel, st1) \<Rightarrow> (OutOfFuel, st1)
      | (Returned (RustError e), st1) \<Rightarrow> (Returned (Err e), st1)
      | (Returned (RustOk response), st1) \<Rightarrow>
          (let customEvent =
                 \<lparr>ev_type = ''reply'',
                  ev_attributes =
                    [\<lparr>attr_key = ''_contract_addr'', attr_value = contractAddress\<rparr>,
                     \<lparr>attr_key = ''mode'',
                      attr_value = (case reply_result replyMsg of
                                      RustOk _ \<Rightarrow> ''handle_success''
                                    | RustError _ \<Rightarrow> ''handle_failure'')\<rparr>]\<rparr>;
               res = buildAppResponse contractAddress customEvent response
           in handleContractResponse fuel ext st1 contractAddress (messages response) res))"
  by pat_completeness auto

termination
  by (relation "inv_image (less_than <*lex*> less_than <*lex*> less_than)
        (\<lambda>x. case x of
            Inl (Inl (Inl (fuel, _))) \<Rightarrow> (fuel, 6::nat, 0::nat)
          | Inl (Inl (Inr (fuel, _))) \<Rightarrow> (fuel, 5, 0)
          | Inl (Inr (Inl (fuel, _))) \<Rightarrow> (fuel, 4, 0)
          | Inl (Inr (Inr (fuel, _))) \<Rightarrow> (fuel, 4, 0)
          | Inr (Inl (Inl (fuel, _))) \<Rightarrow> (fuel, 3, 0)
          | Inr (Inl (Inr (fuel, _, _, _, _, msgs, _))) \<Rightarrow> (fuel, 2, length msgs)
          | Inr (Inr (Inl (fuel, _))) \<Rightarrow> (fuel, 1, 0)
          | Inr (Inr (Inr (fuel, _))) \<Rightarrow> (fuel, 4, 0))")
     auto

declare chain_handleMsg.simps [simp del] handleMsg.simps [simp del]
  instantiateContract.simps [simp del] executeContract.simps [simp del]
  handleContractResponse.simps [simp del] handleContractResponse_loop.simps [simp del]
  executeSubmsg.simps [simp del] reply.simps [simp del]

subsection \<open>Queries\<close>

text \<open>
  The test \<open>!storage\<close> of \<open>handleQuery\<close> is on the value of \<open>getContractStorage\<close>, an
  Immutable \<open>Map\<close>; a JavaScript object is never falsy.
\<close>

definition falsy_Map :: "dict \<Rightarrow> bool" where
  "falsy_Map storage = False"

definition handleQuery :: "externals \<Rightarrow> wasm_module \<Rightarrow> wasm_query \<Rightarrow> binary result outcome \<times> wasm_module" where
  "handleQuery ext st q =
     (case q of
        Smart s \<Rightarrow>
          (case query ext st (smart_contract_addr s) (fromBinary ext (smart_msg s)) of
             (Thrown e, st1) \<Rightarrow> (Thrown e, st1)
           | (OutOfFuel, st1) \<Rightarrow> (OutOfFuel, st1)
           | (Returned r, st1) \<Rightarrow> (Returned (Ok (toBinary_result ext r)), st1))
      | Raw r \<Rightarrow>
          (let storage = getContractStorage st (raw_contract_addr r)
           in if falsy_Map storage
              then (Returned (Err (''Contract '' @ raw_contract_addr r @ '' not found'')), st)
              else (case storage (raw_key r) of
                      None \<Rightarrow> (Returned (Err (''Key '' @ raw_key r @ '' not found'')), st)
                    | Some v \<Rightarrow> (Returned (Ok v), st)))
      | ContractInfoQuery c \<Rightarrow>
          (case getContractInfo st (info_contract_addr c) of
             None \<Rightarrow>
               (Returned (Err (''Contract '' @ info_contract_addr c @ '' not found'')), st)
           | Some info \<Rightarrow>
               (let resp = \<lparr>resp_code_id = codeId info, resp_creator = creator info,
                              resp_admin = admin info, resp_ibc_port = None,
                              resp_pinned = True\<rparr>
                in (Returned (Ok (toBinary_info ext resp)), st)))
      | UnknownWasmQuery \<Rightarrow> (Returned (Err ''Unknown wasm query''), st))"

subsection \<open>The address construction as the specification words it\<close>

text \<open>
  The eight bytes of an unsigned 64-bit integer, the most significant first, and the
  address built from them. These two follow the specification, not the source; they are
  what \<open>numberToBigEndianUint64\<close> and \<open>buildContractAddress\<close> are compared with.
\<close>

definition be_u64 :: "int \<Rightarrow> bytes" where
  "be_u64 n =
     [word_of_int (n div 2 ^ 56), word_of_int (n div 2 ^ 48), word_of_int (n div 2 ^ 40),
      word_of_int (n div 2 ^ 32), word_of_int (n div 2 ^ 24), word_of_int (n div 2 ^ 16),
      word_of_int (n div 2 ^ 8), word_of_int n]"

definition spec_contract_address :: "externals \<Rightarrow> int \<Rightarrow> int \<Rightarrow> bytes" where
  "spec_contract_address ext code_id instance_id =
     take 20 (sha256 ext (sha256 ext (utf8 ''module'') @ utf8 ''wasm'' @ [0]
                            @ be_u64 code_id @ be_u64 instance_id))"

subsection \<open>An example contract and chain\<close>

text \<open>
  A contract to run the module on: its entry points are told what to do by the message.
  \<open>write\<close> stores \<open>a \<mapsto> 1\<close>, \<open>read\<close> returns the value of \<open>a\<close> as data, \<open>echo\<close> returns
  data, \<open>fail\<close> is an error, \<open>run\<close> sends the contract itself \<open>write\<close> and then \<open>fail\<close>,
  \<open>lost\<close> sends \<open>nobody\<close>, an address with no contract, a message; an instantiation
  with \<open>bad\<close> is an error after a write, one with \<open>spawn\<close> succeeds and sends the
  contract itself \<open>fail\<close>. The hash, the address encoding and the decimal text of
  numbers are stand-ins; no statement below depends on the bytes of an address.
\<close>

fun demo_digits :: "nat \<Rightarrow> string" where
  "demo_digits n =
     (if n < 10 then [''0123456789'' ! n]
      else demo_digits (n div 10) @ [''0123456789'' ! (n mod 10)])"

declare demo_digits.simps [simp del]

definition demo_toString :: "int \<Rightarrow> string" where
  "demo_toString i = (if i < 0 then ''-'' @ demo_digits (nat (- i)) else demo_digits (nat i))"

definition empty_response :: contract_response where
  "empty_response = \<lparr>messages = [], attributes = [], events = [], data = None\<rparr>"

definition self_execute :: "execute_env \<Rightarrow> nat \<Rightarrow> json \<Rightarrow> reply_on \<Rightarrow> sub_msg" where
  "self_execute env i m r =
     \<lparr>sub_id = i,
      sub_msg = Wasm (Execute \<lparr>exec_contract_addr = address (contract env), exec_msg = m,
                              exec_funds = []\<rparr>),
      gas_limit = None, reply_on = r\<rparr>"

definition demo_lost_sub :: sub_msg where
  "demo_lost_sub =
     \<lparr>sub_id = 4,
      sub_msg = Wasm (Execute \<lparr>exec_contract_addr = ''nobody'', exec_msg = ''x'',
                              exec_funds = []\<rparr>),
      gas_limit = None, reply_on = Always\<rparr>"

definition demo_instantiate :: "bytes \<Rightarrow> chain \<Rightarrow> execute_env \<Rightarrow> message_info \<Rightarrow> json \<Rightarrow> dict
    \<Rightarrow> contract_response rust_result \<times> dict" where
  "demo_instantiate code ch env info m d =
     (if m = ''bad'' then (RustError ''boom'', d(''a'' \<mapsto> ''1''))
      else if m = ''spawn''
      then (RustOk (empty_response\<lparr>messages := [self_execute env 1 ''fail'' Never]\<rparr>), d)
      else if m = ''lost'' then (RustOk (empty_response\<lparr>messages := [demo_lost_sub]\<rparr>), d)
      else (RustOk empty_response, d))"

definition demo_execute :: "bytes \<Rightarrow> chain \<Rightarrow> execute_env \<Rightarrow> message_info \<Rightarrow> json \<Rightarrow> dict
    \<Rightarrow> contract_response rust_result \<times> dict" where
  "demo_execute code ch env info m d =
     (if m = ''fail'' then (RustError ''boom'', d)
      else if m = ''write'' then (RustOk empty_response, d(''a'' \<mapsto> ''1''))
      else if m = ''lost'' then (RustOk (empty_response\<lparr>messages := [demo_lost_sub]\<rparr>), d)
      else if m = ''echo'' then (RustOk (empty_response\<lparr>data := Some ''hello''\<rparr>), d)
      else if m = ''read'' then (RustOk (empty_response\<lparr>data := d ''a''\<rparr>), d)
      else if m = ''run''
      then (RustOk (empty_response\<lparr>messages := [self_execute env 1 ''write'' Never,
                                                  self_execute env 2 ''fail'' Never]\<rparr>), d)
      else (RustOk empty_response, d))"

definition demo_reply :: "bytes \<Rightarrow> chain \<Rightarrow> execute_env \<Rightarrow> reply_msg \<Rightarrow> dict
    \<Rightarrow> contract_response rust_result \<times> dict" where
  "demo_reply code ch env r d =
     (if reply_id r = 7
      then (RustOk (empty_response\<lparr>events := [\<lparr>ev_type = ''E1'', ev_attributes = []\<rparr>],
                                   data := Some ''d''\<rparr>), d)
      else if reply_id r = 9 then (RustOk (empty_response\<lparr>messages := [demo_lost_sub]\<rparr>), d)
      else (RustError ''reply failed'', d))"

definition demo_query :: "bytes \<Rightarrow> chain \<Rightarrow> execute_env \<Rightarrow> json \<Rightarrow> dict
    \<Rightarrow> binary rust_result \<times> dict" where
  "demo_query code ch env m d =
     (if m = ''bad'' then (RustError ''no such query'', d)
      else (case d ''a'' of None \<Rightarrow> (RustOk ''null'', d) | Some v \<Rightarrow> (RustOk v, d)))"

definition demo_ext :: externals where
  "demo_ext =
     \<lparr>sha256 = rev,
      toBech32 = (\<lambda>prefix bs. prefix @ ''1'' @ map (\<lambda>b. ''qpzry9x8gf2tvdw0'' ! (unat b mod 16)) bs),
      number_toString = demo_toString,
      number_toFixed = demo_digits,
      fromBinary = (\<lambda>b. b),
      toBinary_result = (\<lambda>r. case r of Ok v \<Rightarrow> v | Err e \<Rightarrow> e),
      toBinary_info = (\<lambda>i. resp_creator i),
      vm_instantiate = demo_instantiate,
      vm_execute = demo_execute,
      vm_reply = demo_reply,
      vm_query = demo_query,
      other_handleMsg = (\<lambda>st s m. (Returned (Err ''no such module''), st))\<rparr>"

text \<open>
  The states of the example: a new chain, the chain after \<open>create\<close>, after the
  registration of the first instance, after its instantiation (\<open>demo_live\<close>), after a
  write of the contract (\<open>demo_written\<close>), and with the store of \<open>demo_live\<close> but the
  machine of \<open>demo_written\<close> (\<open>demo_stale\<close>).
\<close>

definition demo_init :: wasm_module where
  "demo_init =
     \<lparr>chain = \<lparr>store = \<lparr>codes = Map.empty, contracts = Map.empty,
                        contractStorage = Map.empty, other_modules = Map.empty\<rparr>,
               height = 1, time = 0, chainId = ''test-1'', bech32Prefix = ''cosmwasm''\<rparr>,
      lastCodeId = 0, lastInstanceId = 0, vms = Map.empty\<rparr>"

definition demo_code :: code_info where
  "demo_code = \<lparr>code_creator = ''alice'', wasmCode = [0, 97, 115, 109]\<rparr>"

definition demo_created :: wasm_module where
  "demo_created =
     \<lparr>chain = \<lparr>store = \<lparr>codes = [1 \<mapsto> demo_code], contracts = Map.empty,
                        contractStorage = Map.empty, other_modules = Map.empty\<rparr>,
               height = 1, time = 0, chainId = ''test-1'', bech32Prefix = ''cosmwasm''\<rparr>,
      lastCodeId = 1, lastInstanceId = 0, vms = Map.empty\<rparr>"

definition demo_addr :: string where
  "demo_addr = toBech32 demo_ext ''cosmwasm'' (buildContractAddress demo_ext 1 1)"

definition demo_info :: contract_info where
  "demo_info = \<lparr>codeId = 1, creator = ''alice'', admin = None, label = [], created = 1\<rparr>"

definition demo_registered :: wasm_module where
  "demo_registered =
     \<lparr>chain = \<lparr>store = \<lparr>codes = [1 \<mapsto> demo_code], contracts = [demo_addr \<mapsto> demo_info],
                        contractStorage = [demo_addr \<mapsto> Map.empty],
                        other_modules = Map.empty\<rparr>,
               height = 1, time = 0, chainId = ''test-1'', bech32Prefix = ''cosmwasm''\<rparr>,
      lastCodeId = 1, lastInstanceId = 1, vms = Map.empty\<rparr>"

definition demo_live :: wasm_module where
  "demo_live =
     demo_registered\<lparr>vms := [demo_addr \<mapsto> \<lparr>vm_wasmCode = [0, 97, 115, 109],
                                              vm_storage = Map.empty\<rparr>]\<rparr>"

definition demo_vm_written :: vm_instance where
  "demo_vm_written = \<lparr>vm_wasmCode = [0, 97, 115, 109], vm_storage = [''a'' \<mapsto> ''1'']\<rparr>"

definition demo_stale :: wasm_module where
  "demo_stale = demo_live\<lparr>vms := [demo_addr \<mapsto> demo_vm_written]\<rparr>"

definition demo_written :: wasm_module where
  "demo_written = setContractStorage demo_stale demo_addr [''a'' \<mapsto> ''1'']"

definition demo_sub :: "nat \<Rightarrow> json \<Rightarrow> reply_on \<Rightarrow> sub_msg" where
  "demo_sub i m r =
     \<lparr>sub_id = i,
      sub_msg = Wasm (Execute \<lparr>exec_contract_addr = demo_addr, exec_msg = m, exec_funds = []\<rparr>),
      gas_limit = None, reply_on = r\<rparr>"

definition demo_execute_event :: event where
  "demo_execute_event =
     \<lparr>ev_type = ''execute'',
      ev_attributes = [\<lparr>attr_key = ''_contract_addr'', attr_value = demo_addr\<rparr>]\<rparr>"

definition demo_reply_event :: event where
  "demo_reply_event =
     \<lparr>ev_type = ''reply'',
      ev_attributes = [\<lparr>attr_key = ''_contract_addr'', attr_value = demo_addr\<rparr>,
                       \<lparr>attr_key = ''mode'', attr_value = ''handle_failure''\<rparr>]\<rparr>"

definition demo_orphan :: wasm_module where
  "demo_orphan = snd (registerContractInstance demo_ext demo_init ''alice'' 5)"

definition demo_orphan_addr :: string where
  "demo_orphan_addr = fst (registerContractInstance demo_ext demo_init ''alice'' 5)"

section \<open>Properties\<close>

subsection \<open>Frames and evaluation of the example\<close>

lemma app_response_eta [simp]:
  "\<lparr>app_events = app_events r, app_data = app_data r\<rparr> = (r :: app_response)"
  by (cases r) simp

lemma registerContractInstance_frame:
  assumes "registerContractInstance ext st s c = (addr, st1)"
  shows "chain st1 = (chain st)\<lparr>store := store (chain st1)\<rparr>"
    and "lastInstanceId st1 = lastInstanceId st + 1"
    and "lastCodeId st1 = lastCodeId st"
  using assms
  by (auto simp: registerContractInstance_def Let_def setContractInfo_def
        setContractStorage_def set_store_def)

lemma buildVM_frame:
  assumes "buildVM ext st addr = (r, st1)"
  shows "chain st1 = chain st"
    and "lastInstanceId st1 = lastInstanceId st"
    and "lastCodeId st1 = lastCodeId st"
  using assms
  by (auto simp: buildVM_def Let_def split: option.splits if_splits)

lemma callInstantiate_frame:
  assumes "callInstantiate ext st s f addr m = (r, st1)"
  shows "chain st1 = (chain st)\<lparr>store := store (chain st1)\<rparr>"
    and "lastInstanceId st1 = lastInstanceId st"
    and "lastCodeId st1 = lastCodeId st"
  using assms
  by (auto simp: callInstantiate_def Let_def setContractStorage_def set_store_def
           split: prod.splits outcome.splits option.splits vm_value.splits
           dest: buildVM_frame)

lemma push_events_append:
  "push_events c acc es =
     acc @ map (\<lambda>e. \<lparr>ev_type = ''wasm-'' @ ev_type e,
                       ev_attributes = \<lparr>attr_key = ''_contract_addr'', attr_value = c\<rparr>
                                         # ev_attributes e\<rparr>) es"
  by (induction es arbitrary: acc) simp_all

lemma handleContractResponse_loop_append:
  "handleContractResponse_loop fuel ext snap st addr (pre @ rest) res =
     (case handleContractResponse_loop fuel ext snap st addr pre res of
        (Returned (Ok r), st1) \<Rightarrow> handleContractResponse_loop fuel ext snap st1 addr rest r
      | other \<Rightarrow> other)"
proof (induction pre arbitrary: st res)
  case Nil
  then show ?case by (simp add: handleContractResponse_loop.simps)
next
  case (Cons m pre)
  show ?case
    by (simp add: handleContractResponse_loop.simps Cons.IH Let_def
             split: prod.splits outcome.splits result.splits option.splits)
qed

text \<open>
  Whenever \<open>handleContractResponse\<close> returns an error, the store is the one it was
  entered with.
\<close>

lemma handleContractResponse_loop_Err_store:
  "handleContractResponse_loop fuel ext snap st addr msgs res = (Returned (Err e), st')
     \<Longrightarrow> store (chain st') = snap"
proof (induction msgs arbitrary: st res)
  case Nil
  then show ?case by (simp add: handleContractResponse_loop.simps)
next
  case (Cons m msgs)
  then show ?case
    by (auto simp: handleContractResponse_loop.simps Let_def set_store_def
             split: prod.splits outcome.splits result.splits option.splits)
qed

lemma handleContractResponse_Err_store:
  "handleContractResponse fuel ext st addr msgs res = (Returned (Err e), st')
     \<Longrightarrow> store (chain st') = store (chain st)"
  by (simp add: handleContractResponse.simps handleContractResponse_loop_Err_store)

text \<open>What \<open>handleQuery\<close> does with a raw query.\<close>

lemma handleQuery_raw:
  "handleQuery ext st (Raw r) =
     (case getContractStorage st (raw_contract_addr r) (raw_key r) of
        None \<Rightarrow> (Returned (Err (''Key '' @ raw_key r @ '' not found'')), st)
      | Some v \<Rightarrow> (Returned (Ok v), st))"
  by (simp add: handleQuery_def falsy_Map_def)

text \<open>
  \<open>numberToBigEndianUint64 n\<close> is the big-endian encoding of \<open>n\<close> shifted into the upper
  four bytes.
\<close>

lemma numberToBigEndianUint64_bytes:
  "numberToBigEndianUint64 n =
     [word_of_int (n mod 2 ^ 32 div 2 ^ 24), word_of_int (n mod 2 ^ 32 div 2 ^ 16),
      word_of_int (n mod 2 ^ 32 div 2 ^ 8), word_of_int (n mod 2 ^ 32), 0, 0, 0, 0]"
  by (simp add: numberToBigEndianUint64_def setUint32_def Let_def)

lemma shift_div: "(w * 2 ^ 32) div 2 ^ (32 + k) = (w :: int) div 2 ^ k"
  by (simp add: power_add zdiv_zmult2_eq)

lemma be_u64_shifted:
  "be_u64 (w * 2 ^ 32) =
     [word_of_int (w div 2 ^ 24), word_of_int (w div 2 ^ 16),
      word_of_int (w div 2 ^ 8), word_of_int w, 0, 0, 0, 0]"
proof -
  have h: "(w * 2 ^ 32) div 2 ^ 56 = w div 2 ^ 24" "(w * 2 ^ 32) div 2 ^ 48 = w div 2 ^ 16"
    "(w * 2 ^ 32) div 2 ^ 40 = w div 2 ^ 8" "(w * 2 ^ 32) div 2 ^ 32 = w"
    using shift_div [of w 24] shift_div [of w 16] shift_div [of w 8] shift_div [of w 0]
    by simp_all
  have l: "(word_of_int ((w * 2 ^ 32) div 2 ^ 24) :: 8 word) = 0"
    "(word_of_int ((w * 2 ^ 32) div 2 ^ 16) :: 8 word) = 0"
    "(word_of_int ((w * 2 ^ 32) div 2 ^ 8) :: 8 word) = 0"
    "(word_of_int (w * 2 ^ 32) :: 8 word) = 0"
    by (subst word_of_int_eq_0_iff, simp)+
  show ?thesis
    unfolding be_u64_def by (simp only: h l)
qed

lemma numberToBigEndianUint64_high_word:
  "numberToBigEndianUint64 n = be_u64 ((n mod 2 ^ 32) * 2 ^ 32)"
  by (simp only: numberToBigEndianUint64_bytes be_u64_shifted)

lemmas demo_states =
  demo_live_def demo_registered_def demo_stale_def demo_written_def demo_vm_written_def
  demo_info_def demo_code_def

lemmas demo_run_defs =
  executeContract.simps callExecute_def vms_get_def empty_response_def
  Let_def handleContractResponse.simps handleContractResponse_loop.simps
  buildAppResponse_def demo_execute_event_def getExecutionEnv_def setContractStorage_def
  set_store_def self_execute_def

lemma demo_ext_sel:
  "vm_instantiate demo_ext = demo_instantiate"
  "vm_execute demo_ext = demo_execute"
  "vm_reply demo_ext = demo_reply"
  "vm_query demo_ext = demo_query"
  "fromBinary demo_ext = (\<lambda>b. b)"
  "number_toString demo_ext = demo_toString"
  "number_toFixed demo_ext = demo_digits"
  "other_handleMsg demo_ext = (\<lambda>st s m. (Returned (Err ''no such module''), st))"
  by (simp_all add: demo_ext_def)

lemma demo_addr_own:
  "demo_addr \<notin> set object_prototype_names"
  "''nobody'' \<notin> set object_prototype_names"
  by (simp_all add: demo_addr_def demo_ext_def object_prototype_names_def)

lemma demo_vms_get:
  "vms_get demo_live demo_addr = Some (VM \<lparr>vm_wasmCode = [0, 97, 115, 109], vm_storage = Map.empty\<rparr>)"
  "vms_get demo_stale demo_addr = Some (VM demo_vm_written)"
  "vms_get demo_written demo_addr = Some (VM demo_vm_written)"
  "vms_get demo_init ''nobody'' = None"
  by (simp_all add: vms_get_def demo_live_def demo_stale_def demo_written_def
        setContractStorage_def set_store_def demo_init_def demo_addr_own)

lemma demo_create:
  "create demo_init ''alice'' [0, 97, 115, 109] = (1, demo_created)"
  by (simp add: create_def demo_init_def demo_created_def demo_code_def setCodeInfo_def
        set_store_def Let_def)

lemma demo_register:
  "registerContractInstance demo_ext demo_created ''alice'' 1 = (demo_addr, demo_registered)"
  by (simp add: registerContractInstance_def demo_created_def demo_registered_def
        demo_info_def setContractInfo_def setContractStorage_def set_store_def Let_def
        demo_addr_def)

lemma demo_buildVM:
  "buildVM demo_ext demo_registered demo_addr
     = (Returned (Some (VM \<lparr>vm_wasmCode = [0, 97, 115, 109], vm_storage = Map.empty\<rparr>)),
        demo_live)"
  by (simp add: buildVM_def vms_in_def demo_addr_own demo_registered_def demo_live_def
        demo_info_def demo_code_def getContractInfo_def getCodeInfo_def
        getContractStorage_def Let_def)

lemma demo_callInstantiate:
  "callInstantiate demo_ext demo_registered ''alice'' [] demo_addr m =
     (Returned (fst (demo_instantiate [0, 97, 115, 109] (chain demo_live)
                       (getExecutionEnv demo_ext demo_live demo_addr)
                       \<lparr>sender = ''alice'', funds = []\<rparr> m Map.empty)),
      (if m = ''bad'' then demo_written else demo_live))"
  apply (simp add: callInstantiate_def demo_buildVM demo_ext_sel demo_instantiate_def Let_def)
  apply (simp add: setContractStorage_def set_store_def demo_states)
  done

lemma demo_instantiate_init:
  "instantiateContract 0 demo_ext demo_created ''alice'' [] 1 ''init''
     = (Returned (Ok \<lparr>app_events =
                        [\<lparr>ev_type = ''instantiate'',
                          ev_attributes =
                            [\<lparr>attr_key = ''_contract_address'', attr_value = demo_addr\<rparr>,
                             \<lparr>attr_key = ''code_id'', attr_value = ''1''\<rparr>]\<rparr>],
                      app_data = None\<rparr>), demo_live)"
  by (simp add: instantiateContract.simps demo_register demo_callInstantiate
        demo_instantiate_def empty_response_def Let_def
        handleContractResponse.simps handleContractResponse_loop.simps buildAppResponse_def
        demo_ext_sel demo_toString_def demo_digits.simps)

lemma demo_exec_write:
  "executeContract 0 demo_ext demo_live s [] demo_addr ''write''
     = (Returned (Ok \<lparr>app_events = [demo_execute_event], app_data = None\<rparr>), demo_written)"
  by (simp add: demo_run_defs demo_ext_sel demo_execute_def demo_states)

lemma demo_exec_echo:
  "executeContract 0 demo_ext demo_live s [] demo_addr ''echo''
     = (Returned (Ok \<lparr>app_events = [demo_execute_event], app_data = Some ''hello''\<rparr>),
        demo_live)"
  by (simp add: demo_run_defs demo_ext_sel demo_execute_def demo_states)

lemma demo_exec_fail_live:
  "executeContract 0 demo_ext demo_live s [] demo_addr ''fail''
     = (Returned (Err ''boom''), demo_live)"
  by (simp add: demo_run_defs demo_ext_sel demo_execute_def demo_states)

lemma demo_exec_fail_written:
  "executeContract 0 demo_ext demo_written s [] demo_addr ''fail''
     = (Returned (Err ''boom''), demo_written)"
  by (simp add: demo_run_defs demo_ext_sel demo_execute_def demo_states)

lemma demo_route:
  "chain_handleMsg 0 demo_ext st s (sub_msg (demo_sub i m r))
     = executeContract 0 demo_ext st s [] demo_addr m"
  by (simp add: chain_handleMsg.simps handleMsg.simps demo_sub_def demo_ext_sel)

lemma demo_sub_write:
  "executeSubmsg (Suc 0) demo_ext demo_live demo_addr (demo_sub i ''write'' Never)
     = (Returned (Ok \<lparr>app_events = [demo_execute_event], app_data = None\<rparr>), demo_written)"
  by (simp add: executeSubmsg.simps demo_route demo_exec_write) (simp add: demo_sub_def)

lemma demo_sub_fail_live:
  "executeSubmsg (Suc 0) demo_ext demo_live demo_addr (demo_sub i ''fail'' Never)
     = (Returned (Err ''boom''), demo_live)"
  by (simp add: executeSubmsg.simps demo_route demo_exec_fail_live) (simp add: demo_sub_def)

lemma demo_sub_fail_written:
  "executeSubmsg (Suc 0) demo_ext demo_written demo_addr (demo_sub i ''fail'' Never)
     = (Returned (Err ''boom''), demo_written)"
  by (simp add: executeSubmsg.simps demo_route demo_exec_fail_written) (simp add: demo_sub_def)

lemma demo_hcr_write:
  "handleContractResponse (Suc 0) demo_ext demo_live demo_addr [demo_sub i ''write'' Never]
       \<lparr>app_events = [demo_execute_event], app_data = None\<rparr>
     = (Returned (Ok \<lparr>app_events = [demo_execute_event, demo_execute_event], app_data = None\<rparr>),
        demo_written)"
  by (simp add: handleContractResponse.simps handleContractResponse_loop.simps demo_sub_write
        Let_def)

lemma demo_revert_store:
  "set_store demo_written (store (chain demo_live)) = demo_stale"
  "set_store demo_live (store (chain demo_live)) = demo_live"
  by (simp_all add: demo_states set_store_def setContractStorage_def)

lemma demo_storage_facts:
  "getContractStorage demo_written demo_addr ''a'' = Some ''1''"
  "getContractStorage demo_stale demo_addr ''a'' = None"
  "getContractStorage demo_live demo_addr ''a'' = None"
  "map_option vm_storage (vms demo_stale demo_addr) = Some [''a'' \<mapsto> ''1'']"
  "store (chain demo_stale) = store (chain demo_live)"
  by (simp_all add: demo_states getContractStorage_def setContractStorage_def set_store_def)

lemma demo_run:
  "executeContract (Suc 0) demo_ext demo_live ''alice'' [] demo_addr ''run''
     = (Returned (Err ''boom''), demo_stale)"
proof -
  have call: "callExecute demo_ext demo_live ''alice'' [] demo_addr ''run''
      = (Returned (RustOk (empty_response\<lparr>messages := [demo_sub 1 ''write'' Never,
                                                         demo_sub 2 ''fail'' Never]\<rparr>)),
         demo_live)"
    by (simp add: callExecute_def vms_get_def demo_ext_sel demo_execute_def Let_def getExecutionEnv_def
          self_execute_def demo_sub_def setContractStorage_def set_store_def demo_states)
  show ?thesis
    by (simp add: executeContract.simps call Let_def empty_response_def
          handleContractResponse.simps handleContractResponse_loop.simps
          demo_sub_write demo_sub_fail_written demo_revert_store)
qed

lemma demo_read_stale:
  "executeContract (Suc 0) demo_ext demo_stale ''alice'' [] demo_addr ''read''
     = (Returned (Ok \<lparr>app_events = [demo_execute_event], app_data = Some ''1''\<rparr>),
        demo_written)"
  by (simp add: demo_run_defs demo_ext_sel demo_execute_def demo_states)

lemma demo_spawn:
  "instantiateContract (Suc 0) demo_ext demo_created ''alice'' [] 1 ''spawn''
     = (Returned (Err ''boom''), demo_live)"
proof -
  have sub: "self_execute (getExecutionEnv demo_ext demo_live demo_addr) i m r = demo_sub i m r"
    for i m r
    by (simp add: self_execute_def demo_sub_def getExecutionEnv_def)
  show ?thesis
    by (simp add: instantiateContract.simps demo_register demo_callInstantiate
          demo_instantiate_def sub empty_response_def Let_def handleContractResponse.simps
          handleContractResponse_loop.simps demo_sub_fail_live demo_revert_store)
qed

lemma demo_reply_ok:
  "reply 0 demo_ext demo_live demo_addr \<lparr>reply_id = 7, reply_result = RustError e\<rparr>
     = (Returned (Ok \<lparr>app_events =
                        [demo_reply_event,
                         \<lparr>ev_type = ''wasm-E1'',
                          ev_attributes =
                            [\<lparr>attr_key = ''_contract_addr'', attr_value = demo_addr\<rparr>]\<rparr>],
                      app_data = Some ''d''\<rparr>), demo_live)"
  by (simp add: reply.simps callReply_def vms_get_def demo_ext_sel demo_reply_def empty_response_def
        Let_def handleContractResponse.simps handleContractResponse_loop.simps
        buildAppResponse_def demo_reply_event_def getExecutionEnv_def setContractStorage_def
        set_store_def demo_states)

lemma demo_reply_fails:
  "reply 0 demo_ext demo_live demo_addr \<lparr>reply_id = 8, reply_result = RustError e\<rparr>
     = (Returned (Err ''reply failed''), demo_live)"
  by (simp add: reply.simps callReply_def vms_get_def demo_ext_sel demo_reply_def empty_response_def
        Let_def getExecutionEnv_def setContractStorage_def set_store_def demo_states)

lemma demo_query_eval:
  "fst (query demo_ext demo_written demo_addr ''get'') = Returned (Ok ''1'')"
  "fst (query demo_ext demo_written demo_addr ''bad'') = Returned (Err ''no such query'')"
  by (simp_all add: query_def vms_get_def demo_ext_sel demo_query_def Let_def demo_states
        setContractStorage_def set_store_def)

subsection \<open>Failed instantiation\<close>

text \<open>
  The branch of \<open>instantiateContract\<close> for an error of the machine undoes the
  registration: the call returns \<open>Err\<close> with that error, the chain (its store included)
  is the one the call started with, and the counters have their values from before the
  call.
\<close>

lemma instantiateContract_vm_error_reverts:
  assumes "registerContractInstance ext st s c = (addr, st1)"
      and "callInstantiate ext st1 s f addr m = (Returned (RustError e), st2)"
  shows "fst (instantiateContract fuel ext st s f c m) = Returned (Err e)
       \<and> chain (snd (instantiateContract fuel ext st s f c m)) = chain st
       \<and> lastInstanceId (snd (instantiateContract fuel ext st s f c m)) = lastInstanceId st
       \<and> lastCodeId (snd (instantiateContract fuel ext st s f c m)) = lastCodeId st"
proof -
  let ?st' = "set_store (deleteContractInfo (st2\<lparr>lastInstanceId := lastInstanceId st2 - 1\<rparr>) addr)
                (store (chain st))"
  have run: "instantiateContract fuel ext st s f c m = (Returned (Err e), ?st')"
    using assms by (simp add: instantiateContract.simps Let_def)
  have c1: "chain st1 = (chain st)\<lparr>store := store (chain st1)\<rparr>"
    and i1: "lastInstanceId st1 = lastInstanceId st + 1"
    and k1: "lastCodeId st1 = lastCodeId st"
    using registerContractInstance_frame [OF assms(1)] by simp_all
  have c2: "chain st2 = (chain st1)\<lparr>store := store (chain st2)\<rparr>"
    and i2: "lastInstanceId st2 = lastInstanceId st1"
    and k2: "lastCodeId st2 = lastCodeId st1"
    using callInstantiate_frame [OF assms(2)] by simp_all
  have "chain ?st' = (chain st2)\<lparr>store := store (chain st)\<rparr>"
    by (simp add: set_store_def deleteContractInfo_def)
  also have "\<dots> = (chain st)\<lparr>store := store (chain st)\<rparr>"
    by (subst c2, subst c1) simp
  finally have "chain ?st' = chain st" by simp
  moreover have "lastInstanceId ?st' = lastInstanceId st"
    by (simp add: set_store_def deleteContractInfo_def i1 i2)
  moreover have "lastCodeId ?st' = lastCodeId st"
    by (simp add: set_store_def deleteContractInfo_def k1 k2)
  ultimately show ?thesis by (simp add: run)
qed

text \<open>
  The example contract instantiated with \<open>bad\<close>: the machine writes \<open>a\<close> and reports
  \<open>boom\<close>; the chain afterwards is the chain before, with no ContractInfo and no storage
  at the new address.
\<close>

lemma instantiateContract_vm_error_example:
  "fst (instantiateContract 0 demo_ext demo_created ''alice'' [] 1 ''bad'') = Returned (Err ''boom'')
   \<and> chain (snd (instantiateContract 0 demo_ext demo_created ''alice'' [] 1 ''bad''))
       = chain demo_created
   \<and> lastInstanceId (snd (instantiateContract 0 demo_ext demo_created ''alice'' [] 1 ''bad'')) = 0
   \<and> getContractInfo (snd (instantiateContract 0 demo_ext demo_created ''alice'' [] 1 ''bad''))
        demo_addr = None
   \<and> contractStorage
        (store (chain (snd (instantiateContract 0 demo_ext demo_created ''alice'' [] 1 ''bad''))))
        demo_addr = None"
proof -
  have call: "callInstantiate demo_ext demo_registered ''alice'' [] demo_addr ''bad''
                = (Returned (RustError ''boom''), demo_written)"
    by (simp add: demo_callInstantiate demo_instantiate_def)
  have "getContractInfo st demo_addr = None
      \<and> contractStorage (store (chain st)) demo_addr = None"
    if "chain st = chain demo_created" for st
    using that by (simp add: getContractInfo_def demo_created_def)
  then show ?thesis
    using instantiateContract_vm_error_reverts [OF demo_register call, of 0]
    by (simp add: demo_created_def)
qed

text \<open>
  The other way for \<open>instantiateContract\<close> to return \<open>Err\<close>: the machine succeeds and a
  submessage fails. The result is that of \<open>handleContractResponse\<close>, whose snapshot is
  taken after the registration and the write-back: whatever the input, the new address
  keeps its ContractInfo and a storage entry.
\<close>

lemma callInstantiate_keeps_contracts:
  assumes "callInstantiate ext st s f addr m = (r, st')"
  shows "contracts (store (chain st')) = contracts (store (chain st))"
  using assms
  by (auto simp: callInstantiate_def buildVM_def Let_def setContractStorage_def set_store_def
           split: prod.splits outcome.splits option.splits vm_value.splits if_splits)

lemma callInstantiate_writes_storage:
  assumes "callInstantiate ext st s f addr m = (Returned r, st')"
  shows "contractStorage (store (chain st')) addr \<noteq> None"
  using assms
  by (auto simp: callInstantiate_def buildVM_def Let_def setContractStorage_def set_store_def
           split: prod.splits outcome.splits option.splits vm_value.splits if_splits)

lemma instantiateContract_submessage_error_keeps_registration:
  assumes reg: "registerContractInstance ext st s c = (addr, st1)"
      and call: "callInstantiate ext st1 s f addr m = (Returned (RustOk R), st2)"
      and err: "instantiateContract fuel ext st s f c m = (Returned (Err e), st3)"
  shows "getContractInfo st3 addr
           = Some \<lparr>codeId = c, creator = s, admin = None, label = [],
                   created = height (chain st)\<rparr>"
    and "contractStorage (store (chain st3)) addr \<noteq> None"
proof -
  have "instantiateContract fuel ext st s f c m
          = handleContractResponse fuel ext st2 addr (messages R)
              (buildAppResponse addr
                 \<lparr>ev_type = ''instantiate'',
                  ev_attributes =
                    [\<lparr>attr_key = ''_contract_address'', attr_value = addr\<rparr>,
                     \<lparr>attr_key = ''code_id'', attr_value = number_toString ext c\<rparr>]\<rparr> R)"
    using reg call by (simp add: instantiateContract.simps Let_def)
  with err have st3: "store (chain st3) = store (chain st2)"
    by (simp add: handleContractResponse_Err_store)
  have "getContractInfo st1 addr
          = Some \<lparr>codeId = c, creator = s, admin = None, label = [],
                  created = height (chain st)\<rparr>"
    using reg
    by (auto simp: registerContractInstance_def Let_def setContractInfo_def
          setContractStorage_def set_store_def getContractInfo_def)
  then show "getContractInfo st3 addr
           = Some \<lparr>codeId = c, creator = s, admin = None, label = [],
                   created = height (chain st)\<rparr>"
    using callInstantiate_keeps_contracts [OF call] st3 by (simp add: getContractInfo_def)
  show "contractStorage (store (chain st3)) addr \<noteq> None"
    using callInstantiate_writes_storage [OF call] st3 by simp
qed

text \<open>
  Claim C1 does not hold of the code. The example contract instantiated with \<open>spawn\<close>
  succeeds in the machine and emits a submessage that fails: \<open>instantiateContract\<close>
  returns \<open>Err\<close>, the new address keeps its ContractInfo and its storage entry, the store
  is not the one of before the call, and \<open>lastInstanceId\<close> stays incremented.
\<close>

theorem instantiateContract_submessage_failure_keeps_registration:
  "instantiateContract (Suc 0) demo_ext demo_created ''alice'' [] 1 ''spawn''
     = (Returned (Err ''boom''), demo_live)
   \<and> fst (registerContractInstance demo_ext demo_created ''alice'' 1) = demo_addr
   \<and> store (chain demo_live) \<noteq> store (chain demo_created)
   \<and> getContractInfo demo_created demo_addr = None
   \<and> getContractInfo demo_live demo_addr = Some demo_info
   \<and> contractStorage (store (chain demo_created)) demo_addr = None
   \<and> contractStorage (store (chain demo_live)) demo_addr = Some Map.empty
   \<and> lastInstanceId demo_created = 0
   \<and> lastInstanceId demo_live = 1"
proof -
  have "contracts (store (chain demo_live)) demo_addr
          \<noteq> contracts (store (chain demo_created)) demo_addr"
    by (simp add: demo_states demo_created_def)
  then have "store (chain demo_live) \<noteq> store (chain demo_created)"
    by auto
  then show ?thesis
    by (simp add: demo_spawn demo_register)
       (simp add: demo_states demo_created_def getContractInfo_def)
qed

subsection \<open>Submessages\<close>

text \<open>
  Claim C2. When the submessages before \<open>m\<close> have succeeded (their loop returns \<open>Ok\<close>,
  leaving the state \<open>st_mid\<close>, whose store holds what they wrote) and \<open>m\<close> returns
  \<open>Err e\<close>, \<open>handleContractResponse\<close> returns \<open>Err e\<close> and the store is the one it was
  entered with: the writes of all earlier siblings are gone, not only those of \<open>m\<close>.
\<close>

theorem handleContractResponse_sibling_revert:
  assumes "handleContractResponse fuel ext st addr pre res = (Returned (Ok res'), st_mid)"
      and "executeSubmsg fuel ext st_mid addr m = (Returned (Err e), st_fail)"
  shows "handleContractResponse fuel ext st addr (pre @ m # post) res =
           (Returned (Err e), set_store st_fail (store (chain st)))
       \<and> store (chain (snd (handleContractResponse fuel ext st addr (pre @ m # post) res)))
           = store (chain st)"
  using assms
  by (simp add: handleContractResponse.simps handleContractResponse_loop_append
        handleContractResponse_loop.simps set_store_def)

text \<open>
  Two submessages of the example contract to itself: \<open>write\<close> succeeds and stores
  \<open>a \<mapsto> 1\<close>, \<open>fail\<close> fails. The result is the error, and \<open>a\<close> is absent from the store.
\<close>

theorem handleContractResponse_sibling_revert_witness:
  "handleContractResponse (Suc 0) demo_ext demo_live demo_addr
       [demo_sub 1 ''write'' Never, demo_sub 2 ''fail'' Never]
       \<lparr>app_events = [demo_execute_event], app_data = None\<rparr>
     = (Returned (Err ''boom''), demo_stale)
   \<and> getContractStorage demo_written demo_addr ''a'' = Some ''1''
   \<and> getContractStorage demo_stale demo_addr ''a'' = None
   \<and> store (chain demo_stale) = store (chain demo_live)"
  using handleContractResponse_sibling_revert
          [OF demo_hcr_write [of 1] demo_sub_fail_written [of 2], of "[]"]
  by (simp add: demo_revert_store demo_storage_facts)

text \<open>
  Claim C3. When the routed submessage fails with \<open>e\<close> and \<open>reply_on\<close> is \<open>Error\<close> or
  \<open>Always\<close>, the result of \<open>executeSubmsg\<close> is decided by \<open>reply\<close> called with the
  submessage's id and \<open>Err e\<close>: if the reply succeeds, \<open>executeSubmsg\<close> returns \<open>Ok\<close> with
  the reply's events and data, and \<open>e\<close> is not in the result; if the reply fails, its
  error is returned.
\<close>

theorem executeSubmsg_error_reply:
  assumes "chain_handleMsg fuel ext st addr (sub_msg m) = (Returned (Err e), st1)"
      and "reply_on m = Error \<or> reply_on m = Always"
  shows "(reply fuel ext st1 addr \<lparr>reply_id = sub_id m, reply_result = RustError e\<rparr>
            = (Returned (Ok R), st2)
          \<longrightarrow> executeSubmsg (Suc fuel) ext st addr m
            = (Returned (Ok \<lparr>app_events = app_events R, app_data = app_data R\<rparr>), st2))
       \<and> (reply fuel ext st1 addr \<lparr>reply_id = sub_id m, reply_result = RustError e\<rparr>
            = (Returned (Err e'), st2)
          \<longrightarrow> executeSubmsg (Suc fuel) ext st addr m = (Returned (Err e'), st2))"
  using assms by (auto simp: executeSubmsg.simps)

text \<open>
  The submessage \<open>fail\<close> of the example with \<open>reply_on = Always\<close> and a reply handler that
  succeeds with the event \<open>E1\<close> and the data \<open>d\<close> (id 7), and with \<open>reply_on = Error\<close> and
  a reply handler that fails (id 8).
\<close>

theorem executeSubmsg_error_reply_witness:
  "executeSubmsg (Suc 0) demo_ext demo_live demo_addr (demo_sub 7 ''fail'' Always)
     = (Returned (Ok \<lparr>app_events =
                        [demo_reply_event,
                         \<lparr>ev_type = ''wasm-E1'',
                          ev_attributes =
                            [\<lparr>attr_key = ''_contract_addr'', attr_value = demo_addr\<rparr>]\<rparr>],
                      app_data = Some ''d''\<rparr>), demo_live)
   \<and> executeSubmsg (Suc 0) demo_ext demo_live demo_addr (demo_sub 8 ''fail'' Error)
     = (Returned (Err ''reply failed''), demo_live)"
proof -
  have route: "chain_handleMsg 0 demo_ext demo_live demo_addr (sub_msg (demo_sub i ''fail'' r))
                 = (Returned (Err ''boom''), demo_live)" for i r
    by (simp add: demo_route demo_exec_fail_live)
  have r7: "reply_on (demo_sub 7 ''fail'' Always) = Error
             \<or> reply_on (demo_sub 7 ''fail'' Always) = Always"
    and r8: "reply_on (demo_sub 8 ''fail'' Error) = Error
             \<or> reply_on (demo_sub 8 ''fail'' Error) = Always"
    by (simp_all add: demo_sub_def)
  have rep7: "reply 0 demo_ext demo_live demo_addr
                 \<lparr>reply_id = sub_id (demo_sub 7 ''fail'' Always), reply_result = RustError ''boom''\<rparr>
      = (Returned (Ok \<lparr>app_events =
                        [demo_reply_event,
                         \<lparr>ev_type = ''wasm-E1'',
                          ev_attributes =
                            [\<lparr>attr_key = ''_contract_addr'', attr_value = demo_addr\<rparr>]\<rparr>],
                      app_data = Some ''d''\<rparr>), demo_live)"
    using demo_reply_ok [of "''boom''"] by (simp add: demo_sub_def)
  have rep8: "reply 0 demo_ext demo_live demo_addr
                 \<lparr>reply_id = sub_id (demo_sub 8 ''fail'' Error), reply_result = RustError ''boom''\<rparr>
      = (Returned (Err ''reply failed''), demo_live)"
    using demo_reply_fails [of "''boom''"] by (simp add: demo_sub_def)
  show ?thesis
    using executeSubmsg_error_reply [OF route r7, THEN conjunct1, rule_format, OF rep7]
          executeSubmsg_error_reply [OF route r8, THEN conjunct2, rule_format, OF rep8]
    by simp
qed

text \<open>
  Claim C4. When the routed submessage succeeds and \<open>reply_on\<close> is \<open>Never\<close> or \<open>Error\<close>,
  \<open>executeSubmsg\<close> returns \<open>Ok\<close> with the submessage's events and no data, in the state
  the router left: \<open>reply\<close> is not called (it would throw where the contract has no
  machine, and nothing is assumed about that).
\<close>

theorem executeSubmsg_success_no_reply:
  assumes "chain_handleMsg fuel ext st addr (sub_msg m) = (Returned (Ok r), st1)"
      and "reply_on m = Never \<or> reply_on m = Error"
  shows "executeSubmsg (Suc fuel) ext st addr m =
           (Returned (Ok \<lparr>app_events = app_events r, app_data = None\<rparr>), st1)"
  using assms by (auto simp: executeSubmsg.simps)

text \<open>The submessage \<open>echo\<close> of the example returns the data \<open>hello\<close>, which is dropped.\<close>

theorem executeSubmsg_success_no_reply_witness:
  "chain_handleMsg 0 demo_ext demo_live demo_addr (sub_msg (demo_sub 3 ''echo'' Error))
     = (Returned (Ok \<lparr>app_events = [demo_execute_event], app_data = Some ''hello''\<rparr>), demo_live)
   \<and> executeSubmsg (Suc 0) demo_ext demo_live demo_addr (demo_sub 3 ''echo'' Error)
     = (Returned (Ok \<lparr>app_events = [demo_execute_event], app_data = None\<rparr>), demo_live)"
proof -
  have route: "chain_handleMsg 0 demo_ext demo_live demo_addr (sub_msg (demo_sub 3 ''echo'' Error))
     = (Returned (Ok \<lparr>app_events = [demo_execute_event], app_data = Some ''hello''\<rparr>), demo_live)"
    by (simp add: demo_route demo_exec_echo)
  have r: "reply_on (demo_sub 3 ''echo'' Error) = Never
             \<or> reply_on (demo_sub 3 ''echo'' Error) = Error"
    by (simp add: demo_sub_def)
  show ?thesis
    using executeSubmsg_success_no_reply [OF route r] route by simp
qed

subsection \<open>Addresses\<close>

text \<open>
  Claim C5 does not hold of the code: \<open>numberToBigEndianUint64\<close> stores the number in
  the first four bytes and zero in the last four, where the big-endian encoding of a
  64-bit integer has them the other way round. For \<open>code_id = 1\<close> and \<open>instance_id = 1\<close>
  the bytes hashed by \<open>buildContractAddress\<close> are not those the specification names.
\<close>

theorem buildContractAddress_1_1:
  "numberToBigEndianUint64 1 = [0, 0, 0, 1, 0, 0, 0, 0]
   \<and> be_u64 1 = [0, 0, 0, 0, 0, 0, 0, 1]
   \<and> buildContractAddress ext 1 1 =
       take 20 (sha256 ext (sha256 ext (utf8 ''module'') @ utf8 ''wasm'' @ [0]
                              @ [0, 0, 0, 1, 0, 0, 0, 0] @ [0, 0, 0, 1, 0, 0, 0, 0]))
   \<and> spec_contract_address ext 1 1 =
       take 20 (sha256 ext (sha256 ext (utf8 ''module'') @ utf8 ''wasm'' @ [0]
                              @ [0, 0, 0, 0, 0, 0, 0, 1] @ [0, 0, 0, 0, 0, 0, 0, 1]))"
proof -
  have n: "numberToBigEndianUint64 1 = [0, 0, 0, 1, 0, 0, 0, 0]"
    by (simp add: numberToBigEndianUint64_def setUint32_def)
  have b: "be_u64 1 = [0, 0, 0, 0, 0, 0, 0, 1]"
    by (simp add: be_u64_def)
  show ?thesis
    by (simp add: buildContractAddress_def spec_contract_address_def Let_def n b)
qed

subsection \<open>The working storage of a machine after a revert\<close>

text \<open>
  A call of \<open>execute\<close> runs the cached machine on the machine's own storage, whatever
  the store holds for the contract; and when the machine reports an error, the store is
  reverted while the machine keeps the storage it was left with.
\<close>

lemma callExecute_runs_on_vm_storage:
  assumes "vms st a = Some vm"
  shows "fst (callExecute ext st s f a m) =
           Returned (fst (vm_execute ext (vm_wasmCode vm) (chain st) (getExecutionEnv ext st a)
                            \<lparr>sender = s, funds = f\<rparr> m (vm_storage vm)))"
  using assms by (simp add: callExecute_def vms_get_def Let_def split: prod.splits)

lemma executeContract_error_keeps_vm_storage:
  assumes "vms st a = Some vm"
      and "vm_execute ext (vm_wasmCode vm) (chain st) (getExecutionEnv ext st a)
             \<lparr>sender = s, funds = f\<rparr> m (vm_storage vm) = (RustError e, d)"
  shows "fst (executeContract fuel ext st s f a m) = Returned (Err e)"
    and "store (chain (snd (executeContract fuel ext st s f a m))) = store (chain st)"
    and "map_option vm_storage (vms (snd (executeContract fuel ext st s f a m)) a) = Some d"
  using assms
  by (simp_all add: executeContract.simps callExecute_def vms_get_def Let_def setContractStorage_def
        set_store_def)

text \<open>
  Claim C6 does not hold of the code: a cached machine keeps its working storage when
  the store is reverted, and \<open>callExecute\<close> runs the machine on that storage. In the
  example, \<open>run\<close> sends \<open>write\<close> and \<open>fail\<close>; the call fails and the store is reverted,
  with no \<open>a\<close> in the contract's storage; the machine still has \<open>a \<mapsto> 1\<close>; the next
  call, \<open>read\<close>, returns \<open>1\<close>, and its write-back puts \<open>a \<mapsto> 1\<close> into the store.
\<close>

theorem reverted_write_seen_by_next_execute:
  "create demo_init ''alice'' [0, 97, 115, 109] = (1, demo_created)
   \<and> snd (instantiateContract 0 demo_ext demo_created ''alice'' [] 1 ''init'') = demo_live
   \<and> executeContract (Suc 0) demo_ext demo_live ''alice'' [] demo_addr ''run''
       = (Returned (Err ''boom''), demo_stale)
   \<and> store (chain demo_stale) = store (chain demo_live)
   \<and> getContractStorage demo_stale demo_addr ''a'' = None
   \<and> map_option vm_storage (vms demo_stale demo_addr) = Some [''a'' \<mapsto> ''1'']
   \<and> executeContract (Suc 0) demo_ext demo_stale ''alice'' [] demo_addr ''read''
       = (Returned (Ok \<lparr>app_events = [demo_execute_event], app_data = Some ''1''\<rparr>),
          demo_written)
   \<and> getContractStorage demo_written demo_addr ''a'' = Some ''1''"
  by (simp add: demo_create demo_instantiate_init demo_run demo_read_stale demo_storage_facts)

subsection \<open>Events\<close>

text \<open>
  Claim C7. The events of \<open>buildAppResponse\<close> are, in this order: the custom event;
  then, exactly when the contract's attributes are not empty, one event of type \<open>wasm\<close>
  with the attribute \<open>_contract_addr\<close> before the contract's attributes; then for each
  event of the contract, in its order, an event of type \<open>wasm-\<close> before its type, with
  the attribute \<open>_contract_addr\<close> before its attributes. The data is the contract's data.
\<close>

theorem buildAppResponse_events:
  "buildAppResponse A E R =
     \<lparr>app_events =
        [E]
        @ (if attributes R \<noteq> []
           then [\<lparr>ev_type = ''wasm'',
                  ev_attributes = \<lparr>attr_key = ''_contract_addr'', attr_value = A\<rparr>
                                    # attributes R\<rparr>]
           else [])
        @ map (\<lambda>e. \<lparr>ev_type = ''wasm-'' @ ev_type e,
                      ev_attributes = \<lparr>attr_key = ''_contract_addr'', attr_value = A\<rparr>
                                        # ev_attributes e\<rparr>)
              (events R),
      app_data = data R\<rparr>"
  by (simp add: buildAppResponse_def push_events_append)

text \<open>The response with one attribute and one event, and the response with neither.\<close>

theorem buildAppResponse_events_witness:
  "buildAppResponse ''A''
      \<lparr>ev_type = ''execute'',
       ev_attributes = [\<lparr>attr_key = ''_contract_addr'', attr_value = ''A''\<rparr>]\<rparr>
      \<lparr>messages = [], attributes = [\<lparr>attr_key = ''k'', attr_value = ''v''\<rparr>],
       events = [\<lparr>ev_type = ''t'',
                  ev_attributes = [\<lparr>attr_key = ''a'', attr_value = ''b''\<rparr>]\<rparr>],
       data = None\<rparr>
   = \<lparr>app_events =
        [\<lparr>ev_type = ''execute'',
          ev_attributes = [\<lparr>attr_key = ''_contract_addr'', attr_value = ''A''\<rparr>]\<rparr>,
         \<lparr>ev_type = ''wasm'',
          ev_attributes = [\<lparr>attr_key = ''_contract_addr'', attr_value = ''A''\<rparr>,
                           \<lparr>attr_key = ''k'', attr_value = ''v''\<rparr>]\<rparr>,
         \<lparr>ev_type = ''wasm-t'',
          ev_attributes = [\<lparr>attr_key = ''_contract_addr'', attr_value = ''A''\<rparr>,
                           \<lparr>attr_key = ''a'', attr_value = ''b''\<rparr>]\<rparr>],
      app_data = None\<rparr>
   \<and> buildAppResponse ''A'' \<lparr>ev_type = ''execute'', ev_attributes = []\<rparr>
        \<lparr>messages = [], attributes = [], events = [], data = Some ''x''\<rparr>
     = \<lparr>app_events = [\<lparr>ev_type = ''execute'', ev_attributes = []\<rparr>], app_data = Some ''x''\<rparr>"
  using buildAppResponse_events [of "''A''"
          "\<lparr>ev_type = ''execute'',
            ev_attributes = [\<lparr>attr_key = ''_contract_addr'', attr_value = ''A''\<rparr>]\<rparr>"
          "\<lparr>messages = [], attributes = [\<lparr>attr_key = ''k'', attr_value = ''v''\<rparr>],
            events = [\<lparr>ev_type = ''t'',
                       ev_attributes = [\<lparr>attr_key = ''a'', attr_value = ''b''\<rparr>]\<rparr>],
            data = None\<rparr>"]
        buildAppResponse_events [of "''A''" "\<lparr>ev_type = ''execute'', ev_attributes = []\<rparr>"
          "\<lparr>messages = [], attributes = [], events = [], data = Some ''x''\<rparr>"]
  by simp

subsection \<open>Queries\<close>

text \<open>
  Claim C8 does not hold of the code: \<open>getContractStorage\<close> gives an empty map for an
  address with no storage, so the test for a missing contract never succeeds, and a raw
  query at such an address returns the error of a missing key.
\<close>

theorem handleQuery_raw_no_contract:
  "contractStorage (store (chain demo_init)) ''A'' = None
   \<and> handleQuery demo_ext demo_init (Raw \<lparr>raw_contract_addr = ''A'', raw_key = ''nope''\<rparr>)
       = (Returned (Err ''Key nope not found''), demo_init)"
  by (simp add: handleQuery_raw getContractStorage_def demo_init_def)

text \<open>
  Claim C9. Whatever \<open>query\<close> returns, the chain (with its store: codes, contracts and
  contract storage) and the two counters are what they were before the call.
\<close>

theorem query_keeps_chain:
  assumes "query ext st addr m = (r, st')"
  shows "chain st' = chain st \<and> lastCodeId st' = lastCodeId st
         \<and> lastInstanceId st' = lastInstanceId st"
  using assms
  by (auto simp: query_def vms_get_def Let_def
           split: option.splits prod.splits vm_value.splits if_splits)

text \<open>A query of the example that succeeds and one that fails.\<close>

theorem query_keeps_chain_witness:
  "fst (query demo_ext demo_written demo_addr ''get'') = Returned (Ok ''1'')
   \<and> chain (snd (query demo_ext demo_written demo_addr ''get'')) = chain demo_written
   \<and> lastInstanceId (snd (query demo_ext demo_written demo_addr ''get'')) = 1
   \<and> fst (query demo_ext demo_written demo_addr ''bad'') = Returned (Err ''no such query'')
   \<and> chain (snd (query demo_ext demo_written demo_addr ''bad'')) = chain demo_written
   \<and> lastCodeId (snd (query demo_ext demo_written demo_addr ''bad'')) = 1"
proof -
  have c: "lastInstanceId demo_written = 1" "lastCodeId demo_written = 1"
    by (simp_all add: demo_states setContractStorage_def set_store_def)
  have p: "query demo_ext demo_written demo_addr q
             = (fst (query demo_ext demo_written demo_addr q),
                snd (query demo_ext demo_written demo_addr q))" for q
    by simp
  show ?thesis
    using query_keeps_chain [OF p [of "''get''"]] query_keeps_chain [OF p [of "''bad''"]]
    by (simp add: demo_query_eval c)
qed

subsection \<open>Exceptions\<close>

text \<open>
  Claim C10, as amended. A missing contract or code in \<open>buildVM\<close> (for an address that
  is not \<open>in\<close> the cache), a missing cached machine in \<open>callExecute\<close>, \<open>callReply\<close> and
  \<open>query\<close>, and an unknown message variant in \<open>handleMsg\<close> are thrown, not returned as
  \<open>Err\<close>. Nothing on the way up catches an exception: \<open>callInstantiate\<close> passes on what
  \<open>buildVM\<close> throws; \<open>instantiateContract\<close>, \<open>executeContract\<close> and \<open>reply\<close> pass on
  what the call into the machine throws, and otherwise return whatever
  \<open>handleContractResponse\<close> does, an exception included; \<open>handleContractResponse\<close>
  passes on an exception of a submessage at any position; \<open>executeSubmsg\<close> passes on an
  exception of the router, whatever \<open>reply_on\<close> is, and an exception of \<open>reply\<close> on
  both of its branches; \<open>handleMsg\<close> and the router return what the entry point does;
  \<open>handleQuery\<close> passes on what \<open>query\<close> throws. An unknown query variant in
  \<open>handleQuery\<close> is returned as \<open>Err\<close>.
\<close>

theorem engine_failures_thrown:
  "(\<not> vms_in st a \<and> getContractInfo st a = None
      \<longrightarrow> buildVM ext st a = (Thrown (''contract '' @ a @ '' not found''), st))
 \<and> (\<not> vms_in st a \<and> getContractInfo st a = Some ci \<and> getCodeInfo st (codeId ci) = None
      \<longrightarrow> buildVM ext st a
           = (Thrown (''code '' @ number_toString ext (codeId ci) @ '' not found''), st))
 \<and> (vms st a = None
      \<longrightarrow> callExecute ext st s f a m
            = (Thrown (if a \<in> set object_prototype_names
                       then ''TypeError: vm.resetDebugInfo is not a function''
                       else ''No VM for contract '' @ a), st)
        \<and> callReply ext st a rm
            = (Thrown (if a \<in> set object_prototype_names
                       then ''TypeError: vm.reply is not a function''
                       else ''No VM for contract '' @ a), st)
        \<and> query ext st a m
            = (Thrown (if a \<in> set object_prototype_names
                       then ''TypeError: vm.query is not a function''
                       else ''No VM for contract '' @ a), st))
 \<and> (vms st a = None \<and> a \<in> set object_prototype_names
      \<longrightarrow> callInstantiate ext st s f a m
            = (Thrown ''TypeError: vm.instantiate is not a function'', st))
 \<and> handleMsg fuel ext st s UnknownWasmMsg = (Thrown ''Unknown wasm message'', st)
 \<and> handleQuery ext st UnknownWasmQuery = (Returned (Err ''Unknown wasm query''), st)
 \<and> (buildVM ext st a = (Thrown x, st')
      \<longrightarrow> callInstantiate ext st s f a m = (Thrown x, st'))
 \<and> (callInstantiate ext (snd (registerContractInstance ext st s c)) s f
         (fst (registerContractInstance ext st s c)) m = (Thrown x, st')
      \<longrightarrow> instantiateContract fuel ext st s f c m = (Thrown x, st'))
 \<and> (callInstantiate ext (snd (registerContractInstance ext st s c)) s f
         (fst (registerContractInstance ext st s c)) m = (Returned (RustOk R), st')
      \<longrightarrow> instantiateContract fuel ext st s f c m
            = handleContractResponse fuel ext st' (fst (registerContractInstance ext st s c))
                (messages R)
                (buildAppResponse (fst (registerContractInstance ext st s c))
                   \<lparr>ev_type = ''instantiate'',
                    ev_attributes =
                      [\<lparr>attr_key = ''_contract_address'',
                        attr_value = fst (registerContractInstance ext st s c)\<rparr>,
                       \<lparr>attr_key = ''code_id'', attr_value = number_toString ext c\<rparr>]\<rparr>
                   R))
 \<and> (callExecute ext st s f a m = (Thrown x, st')
      \<longrightarrow> executeContract fuel ext st s f a m = (Thrown x, st'))
 \<and> (callExecute ext st s f a m = (Returned (RustOk R), st')
      \<longrightarrow> executeContract fuel ext st s f a m
            = handleContractResponse fuel ext st' a (messages R)
                (buildAppResponse a
                   \<lparr>ev_type = ''execute'',
                    ev_attributes = [\<lparr>attr_key = ''_contract_addr'', attr_value = a\<rparr>]\<rparr>
                   R))
 \<and> (callReply ext st a rm = (Thrown x, st')
      \<longrightarrow> reply fuel ext st a rm = (Thrown x, st'))
 \<and> (callReply ext st a rm = (Returned (RustOk R), st')
      \<longrightarrow> reply fuel ext st a rm
            = handleContractResponse fuel ext st' a (messages R)
                (buildAppResponse a
                   \<lparr>ev_type = ''reply'',
                    ev_attributes =
                      [\<lparr>attr_key = ''_contract_addr'', attr_value = a\<rparr>,
                       \<lparr>attr_key = ''mode'',
                        attr_value = (case reply_result rm of
                                        RustOk _ \<Rightarrow> ''handle_success''
                                      | RustError _ \<Rightarrow> ''handle_failure'')\<rparr>]\<rparr>
                   R))
 \<and> (handleContractResponse fuel ext st a pre res = (Returned (Ok res'), st')
      \<and> executeSubmsg fuel ext st' a sm = (Thrown x, st'')
      \<longrightarrow> handleContractResponse fuel ext st a (pre @ sm # rest) res = (Thrown x, st''))
 \<and> (chain_handleMsg fuel ext st a (sub_msg sm) = (Thrown x, st')
      \<longrightarrow> executeSubmsg (Suc fuel) ext st a sm = (Thrown x, st'))
 \<and> (chain_handleMsg fuel ext st a (sub_msg sm) = (Returned (Ok r), st')
      \<and> (reply_on sm = Success \<or> reply_on sm = Always)
      \<and> reply fuel ext st' a
            \<lparr>reply_id = sub_id sm,
             reply_result = RustOk \<lparr>app_events = app_events r, app_data = app_data r\<rparr>\<rparr>
          = (Thrown x, st'')
      \<longrightarrow> executeSubmsg (Suc fuel) ext st a sm = (Thrown x, st''))
 \<and> (chain_handleMsg fuel ext st a (sub_msg sm) = (Returned (Err e), st')
      \<and> (reply_on sm = Error \<or> reply_on sm = Always)
      \<and> reply fuel ext st' a \<lparr>reply_id = sub_id sm, reply_result = RustError e\<rparr>
          = (Thrown x, st'')
      \<longrightarrow> executeSubmsg (Suc fuel) ext st a sm = (Thrown x, st''))
 \<and> handleMsg fuel ext st s (Execute ex)
      = executeContract fuel ext st s (exec_funds ex) (exec_contract_addr ex)
          (fromBinary ext (exec_msg ex))
 \<and> handleMsg fuel ext st s (Instantiate ins)
      = instantiateContract fuel ext st s (inst_funds ins) (inst_code_id ins)
          (fromBinary ext (inst_msg ins))
 \<and> chain_handleMsg fuel ext st s (Wasm w) = handleMsg fuel ext st s w
 \<and> (query ext st (smart_contract_addr q) (fromBinary ext (smart_msg q)) = (Thrown x, st')
      \<longrightarrow> handleQuery ext st (Smart q) = (Thrown x, st'))"
proof -
  have build: "buildVM ext st a = (Thrown x, st')
      \<longrightarrow> callInstantiate ext st s f a m = (Thrown x, st')"
    by (simp add: callInstantiate_def)
  have inherited: "vms st a = None \<and> a \<in> set object_prototype_names
      \<longrightarrow> callInstantiate ext st s f a m
            = (Thrown ''TypeError: vm.instantiate is not a function'', st)"
    by (simp add: callInstantiate_def buildVM_def vms_in_def vms_get_def)
  have inst: "instantiateContract fuel ext st s f c m =
      (case callInstantiate ext (snd (registerContractInstance ext st s c)) s f
              (fst (registerContractInstance ext st s c)) m of
         (Returned (RustOk R), st') \<Rightarrow>
            handleContractResponse fuel ext st' (fst (registerContractInstance ext st s c))
                (messages R)
                (buildAppResponse (fst (registerContractInstance ext st s c))
                   \<lparr>ev_type = ''instantiate'',
                    ev_attributes =
                      [\<lparr>attr_key = ''_contract_address'',
                        attr_value = fst (registerContractInstance ext st s c)\<rparr>,
                       \<lparr>attr_key = ''code_id'', attr_value = number_toString ext c\<rparr>]\<rparr>
                   R)
       | (Returned (RustError e), st') \<Rightarrow>
            (Returned (Err e),
             set_store (deleteContractInfo (st'\<lparr>lastInstanceId := lastInstanceId st' - 1\<rparr>)
                          (fst (registerContractInstance ext st s c)))
               (store (chain st)))
       | (Thrown x, st') \<Rightarrow> (Thrown x, st')
       | (OutOfFuel, st') \<Rightarrow> (OutOfFuel, st'))"
    by (simp add: instantiateContract.simps Let_def case_prod_beta
             split: prod.splits outcome.splits rust_result.splits)
  have first: "(\<not> vms_in st a \<and> getContractInfo st a = None
      \<longrightarrow> buildVM ext st a = (Thrown (''contract '' @ a @ '' not found''), st))
   \<and> (\<not> vms_in st a \<and> getContractInfo st a = Some ci \<and> getCodeInfo st (codeId ci) = None
      \<longrightarrow> buildVM ext st a
           = (Thrown (''code '' @ number_toString ext (codeId ci) @ '' not found''), st))"
    by (simp add: buildVM_def)
  have missing: "vms st a = None
      \<longrightarrow> callExecute ext st s f a m
            = (Thrown (if a \<in> set object_prototype_names
                       then ''TypeError: vm.resetDebugInfo is not a function''
                       else ''No VM for contract '' @ a), st)
        \<and> callReply ext st a rm
            = (Thrown (if a \<in> set object_prototype_names
                       then ''TypeError: vm.reply is not a function''
                       else ''No VM for contract '' @ a), st)
        \<and> query ext st a m
            = (Thrown (if a \<in> set object_prototype_names
                       then ''TypeError: vm.query is not a function''
                       else ''No VM for contract '' @ a), st)"
    by (simp add: callExecute_def callReply_def query_def vms_get_def)
  have position: "handleContractResponse fuel ext st a pre res = (Returned (Ok res'), st')
      \<and> executeSubmsg fuel ext st' a sm = (Thrown x, st'')
      \<longrightarrow> handleContractResponse fuel ext st a (pre @ sm # rest) res = (Thrown x, st'')"
    by (simp add: handleContractResponse.simps handleContractResponse_loop_append
          handleContractResponse_loop.simps)
  have sub: "(chain_handleMsg fuel ext st a (sub_msg sm) = (Thrown x, st')
      \<longrightarrow> executeSubmsg (Suc fuel) ext st a sm = (Thrown x, st'))
   \<and> (chain_handleMsg fuel ext st a (sub_msg sm) = (Returned (Ok r), st')
      \<and> (reply_on sm = Success \<or> reply_on sm = Always)
      \<and> reply fuel ext st' a
            \<lparr>reply_id = sub_id sm,
             reply_result = RustOk \<lparr>app_events = app_events r, app_data = app_data r\<rparr>\<rparr>
          = (Thrown x, st'')
      \<longrightarrow> executeSubmsg (Suc fuel) ext st a sm = (Thrown x, st''))
   \<and> (chain_handleMsg fuel ext st a (sub_msg sm) = (Returned (Err e), st')
      \<and> (reply_on sm = Error \<or> reply_on sm = Always)
      \<and> reply fuel ext st' a \<lparr>reply_id = sub_id sm, reply_result = RustError e\<rparr>
          = (Thrown x, st'')
      \<longrightarrow> executeSubmsg (Suc fuel) ext st a sm = (Thrown x, st''))"
    by (auto simp: executeSubmsg.simps)
  have entry: "(callExecute ext st s f a m = (Thrown x, st')
      \<longrightarrow> executeContract fuel ext st s f a m = (Thrown x, st'))
   \<and> (callExecute ext st s f a m = (Returned (RustOk R), st')
      \<longrightarrow> executeContract fuel ext st s f a m
            = handleContractResponse fuel ext st' a (messages R)
                (buildAppResponse a
                   \<lparr>ev_type = ''execute'',
                    ev_attributes = [\<lparr>attr_key = ''_contract_addr'', attr_value = a\<rparr>]\<rparr>
                   R))
   \<and> (callReply ext st a rm = (Thrown x, st')
      \<longrightarrow> reply fuel ext st a rm = (Thrown x, st'))
   \<and> (callReply ext st a rm = (Returned (RustOk R), st')
      \<longrightarrow> reply fuel ext st a rm
            = handleContractResponse fuel ext st' a (messages R)
                (buildAppResponse a
                   \<lparr>ev_type = ''reply'',
                    ev_attributes =
                      [\<lparr>attr_key = ''_contract_addr'', attr_value = a\<rparr>,
                       \<lparr>attr_key = ''mode'',
                        attr_value = (case reply_result rm of
                                        RustOk _ \<Rightarrow> ''handle_success''
                                      | RustError _ \<Rightarrow> ''handle_failure'')\<rparr>]\<rparr>
                   R))"
    by (simp add: executeContract.simps reply.simps Let_def)
  have route: "handleMsg fuel ext st s UnknownWasmMsg = (Thrown ''Unknown wasm message'', st)
   \<and> handleQuery ext st UnknownWasmQuery = (Returned (Err ''Unknown wasm query''), st)
   \<and> handleMsg fuel ext st s (Execute ex)
      = executeContract fuel ext st s (exec_funds ex) (exec_contract_addr ex)
          (fromBinary ext (exec_msg ex))
   \<and> handleMsg fuel ext st s (Instantiate ins)
      = instantiateContract fuel ext st s (inst_funds ins) (inst_code_id ins)
          (fromBinary ext (inst_msg ins))
   \<and> chain_handleMsg fuel ext st s (Wasm w) = handleMsg fuel ext st s w
   \<and> (query ext st (smart_contract_addr q) (fromBinary ext (smart_msg q)) = (Thrown x, st')
      \<longrightarrow> handleQuery ext st (Smart q) = (Thrown x, st'))"
    by (simp add: handleMsg.simps chain_handleMsg.simps handleQuery_def)
  show ?thesis
    using build inherited first missing position sub entry route
    by (simp add: inst)
qed

text \<open>Evaluation of the example at addresses with no machine.\<close>

lemma demo_addr_not_nobody: "demo_addr \<noteq> ''nobody''"
  by (simp add: demo_addr_def demo_ext_def)

lemma demo_vms_nobody:
  "vms demo_init ''nobody'' = None"
  "vms demo_live ''nobody'' = None"
  "vms demo_written ''nobody'' = None"
  "vms demo_init ''toString'' = None"
  by (simp_all add: demo_init_def demo_live_def demo_stale_def demo_written_def
        setContractStorage_def set_store_def demo_addr_not_nobody
        demo_addr_not_nobody [symmetric])

lemma demo_orphan_facts:
  "registerContractInstance demo_ext demo_init ''alice'' 5 = (demo_orphan_addr, demo_orphan)"
  "\<not> vms_in demo_orphan demo_orphan_addr"
  "getContractInfo demo_orphan demo_orphan_addr
     = Some \<lparr>codeId = 5, creator = ''alice'', admin = None, label = [], created = 1\<rparr>"
  "getCodeInfo demo_orphan 5 = None"
proof -
  show "registerContractInstance demo_ext demo_init ''alice'' 5 = (demo_orphan_addr, demo_orphan)"
    by (simp add: demo_orphan_def demo_orphan_addr_def)
  have "demo_orphan_addr \<notin> set object_prototype_names"
    by (simp add: demo_orphan_addr_def registerContractInstance_def Let_def demo_init_def
          demo_ext_def object_prototype_names_def)
  then show "\<not> vms_in demo_orphan demo_orphan_addr"
    by (simp add: vms_in_def demo_orphan_def registerContractInstance_def Let_def
          setContractInfo_def setContractStorage_def set_store_def demo_init_def)
  show "getContractInfo demo_orphan demo_orphan_addr
     = Some \<lparr>codeId = 5, creator = ''alice'', admin = None, label = [], created = 1\<rparr>"
    "getCodeInfo demo_orphan 5 = None"
    by (simp_all add: demo_orphan_def demo_orphan_addr_def registerContractInstance_def
          Let_def setContractInfo_def setContractStorage_def set_store_def
          getContractInfo_def getCodeInfo_def demo_init_def)
qed

lemma demo_lost_route:
  assumes "vms st ''nobody'' = None"
  shows "chain_handleMsg 0 demo_ext st p (sub_msg demo_lost_sub)
           = (Thrown ''No VM for contract nobody'', st)"
  using assms
  by (simp add: chain_handleMsg.simps handleMsg.simps demo_lost_sub_def
        executeContract.simps callExecute_def vms_get_def demo_addr_own)

lemma demo_lost_calls:
  "callInstantiate demo_ext demo_registered ''alice'' [] demo_addr ''lost''
     = (Returned (RustOk (empty_response\<lparr>messages := [demo_lost_sub]\<rparr>)), demo_live)"
  "callExecute demo_ext demo_live ''alice'' [] demo_addr ''lost''
     = (Returned (RustOk (empty_response\<lparr>messages := [demo_lost_sub]\<rparr>)), demo_live)"
  "callReply demo_ext demo_live demo_addr \<lparr>reply_id = 9, reply_result = RustError ''e''\<rparr>
     = (Returned (RustOk (empty_response\<lparr>messages := [demo_lost_sub]\<rparr>)), demo_live)"
proof -
  show "callInstantiate demo_ext demo_registered ''alice'' [] demo_addr ''lost''
     = (Returned (RustOk (empty_response\<lparr>messages := [demo_lost_sub]\<rparr>)), demo_live)"
    by (simp add: demo_callInstantiate demo_instantiate_def)
  show "callExecute demo_ext demo_live ''alice'' [] demo_addr ''lost''
     = (Returned (RustOk (empty_response\<lparr>messages := [demo_lost_sub]\<rparr>)), demo_live)"
    by (simp add: callExecute_def demo_vms_get demo_ext_sel demo_execute_def Let_def)
       (simp add: setContractStorage_def set_store_def demo_states)
  show "callReply demo_ext demo_live demo_addr \<lparr>reply_id = 9, reply_result = RustError ''e''\<rparr>
     = (Returned (RustOk (empty_response\<lparr>messages := [demo_lost_sub]\<rparr>)), demo_live)"
    by (simp add: callReply_def demo_vms_get demo_ext_sel demo_reply_def Let_def)
       (simp add: setContractStorage_def set_store_def demo_states)
qed

text \<open>
  In the example: a contract that does not exist and an address inherited from
  \<open>Object.prototype\<close>; a contract registered with a code id that does not exist; a
  contract whose instantiation, execution or reply emits a submessage to an address with
  no machine, with \<open>reply_on = Always\<close>, first in the list or after a submessage that
  succeeded; and a submessage from \<open>nobody\<close>, so that the reply is what throws, after a
  success and after a failure.
\<close>

theorem engine_failures_thrown_witness:
  "buildVM demo_ext demo_init ''nobody'' = (Thrown ''contract nobody not found'', demo_init)
   \<and> buildVM demo_ext demo_orphan demo_orphan_addr = (Thrown ''code 5 not found'', demo_orphan)
   \<and> callExecute demo_ext demo_init ''alice'' [] ''nobody'' ''x''
       = (Thrown ''No VM for contract nobody'', demo_init)
   \<and> callReply demo_ext demo_init ''nobody'' \<lparr>reply_id = 4, reply_result = RustError ''e''\<rparr>
       = (Thrown ''No VM for contract nobody'', demo_init)
   \<and> query demo_ext demo_init ''nobody'' ''x''
       = (Thrown ''No VM for contract nobody'', demo_init)
   \<and> callExecute demo_ext demo_init ''alice'' [] ''toString'' ''x''
       = (Thrown ''TypeError: vm.resetDebugInfo is not a function'', demo_init)
   \<and> callInstantiate demo_ext demo_init ''alice'' [] ''toString'' ''x''
       = (Thrown ''TypeError: vm.instantiate is not a function'', demo_init)
   \<and> callInstantiate demo_ext demo_init ''alice'' [] ''nobody'' ''x''
       = (Thrown ''contract nobody not found'', demo_init)
   \<and> instantiateContract 0 demo_ext demo_init ''alice'' [] 5 ''init''
       = (Thrown ''code 5 not found'', demo_orphan)
   \<and> instantiateContract (Suc 0) demo_ext demo_created ''alice'' [] 1 ''lost''
       = (Thrown ''No VM for contract nobody'', demo_live)
   \<and> executeContract 0 demo_ext demo_init ''alice'' [] ''nobody'' ''x''
       = (Thrown ''No VM for contract nobody'', demo_init)
   \<and> executeContract (Suc 0) demo_ext demo_live ''alice'' [] demo_addr ''lost''
       = (Thrown ''No VM for contract nobody'', demo_live)
   \<and> reply 0 demo_ext demo_init ''nobody'' \<lparr>reply_id = 4, reply_result = RustError ''e''\<rparr>
       = (Thrown ''No VM for contract nobody'', demo_init)
   \<and> reply (Suc 0) demo_ext demo_live demo_addr \<lparr>reply_id = 9, reply_result = RustError ''e''\<rparr>
       = (Thrown ''No VM for contract nobody'', demo_live)
   \<and> handleContractResponse (Suc 0) demo_ext demo_live demo_addr
        [demo_sub 1 ''write'' Never, demo_lost_sub, demo_sub 2 ''fail'' Never]
        \<lparr>app_events = [demo_execute_event], app_data = None\<rparr>
       = (Thrown ''No VM for contract nobody'', demo_written)
   \<and> executeSubmsg (Suc 0) demo_ext demo_live demo_addr demo_lost_sub
       = (Thrown ''No VM for contract nobody'', demo_live)
   \<and> executeSubmsg (Suc 0) demo_ext demo_live ''nobody'' (demo_sub 3 ''echo'' Success)
       = (Thrown ''No VM for contract nobody'', demo_live)
   \<and> executeSubmsg (Suc 0) demo_ext demo_live ''nobody'' (demo_sub 3 ''fail'' Error)
       = (Thrown ''No VM for contract nobody'', demo_live)
   \<and> handleQuery demo_ext demo_init
        (Smart \<lparr>smart_contract_addr = ''nobody'', smart_msg = ''x''\<rparr>)
       = (Thrown ''No VM for contract nobody'', demo_init)"
proof -
  let ?no = "''No VM for contract nobody''"
  let ?rm = "\<lparr>reply_id = 4, reply_result = RustError ''e''\<rparr>"
  let ?R = "empty_response\<lparr>messages := [demo_lost_sub]\<rparr>"
  have names: "''nobody'' \<notin> set object_prototype_names"
    "''toString'' \<in> set object_prototype_names"
    by (simp_all add: object_prototype_names_def)
  have absent: "\<not> vms_in demo_init ''nobody''" "getContractInfo demo_init ''nobody'' = None"
    by (simp_all add: vms_in_def names demo_vms_nobody) (simp add: demo_init_def getContractInfo_def)
  have five: "number_toString demo_ext 5 = ''5''"
    by (simp add: demo_ext_sel demo_toString_def demo_digits.simps)

  note nobody = engine_failures_thrown [where st = demo_init and a = "''nobody''"
      and ext = demo_ext and s = "''alice''" and f = "[]" and m = "''x''" and rm = ?rm
      and fuel = 0 and x = ?no and st' = demo_init
      and q = "\<lparr>smart_contract_addr = ''nobody'', smart_msg = ''x''\<rparr>"]
  have w1: "buildVM demo_ext demo_init ''nobody''
              = (Thrown ''contract nobody not found'', demo_init)"
    using nobody absent by simp
  have w3: "callExecute demo_ext demo_init ''alice'' [] ''nobody'' ''x'' = (Thrown ?no, demo_init)"
    "callReply demo_ext demo_init ''nobody'' ?rm = (Thrown ?no, demo_init)"
    "query demo_ext demo_init ''nobody'' ''x'' = (Thrown ?no, demo_init)"
    using nobody demo_vms_nobody(1) names(1) by simp_all
  have w8: "executeContract 0 demo_ext demo_init ''alice'' [] ''nobody'' ''x''
              = (Thrown ?no, demo_init)"
    using nobody w3(1) by simp
  have w10: "reply 0 demo_ext demo_init ''nobody'' ?rm = (Thrown ?no, demo_init)"
    using nobody w3(2) by simp
  have w16: "handleQuery demo_ext demo_init
               (Smart \<lparr>smart_contract_addr = ''nobody'', smart_msg = ''x''\<rparr>)
              = (Thrown ?no, demo_init)"
    using nobody w3(3) by (simp add: demo_ext_sel)

  note inherited = engine_failures_thrown [where st = demo_init and a = "''toString''"
      and ext = demo_ext and s = "''alice''" and f = "[]" and m = "''x''"]
  have w4: "callExecute demo_ext demo_init ''alice'' [] ''toString'' ''x''
              = (Thrown ''TypeError: vm.resetDebugInfo is not a function'', demo_init)"
    "callInstantiate demo_ext demo_init ''alice'' [] ''toString'' ''x''
              = (Thrown ''TypeError: vm.instantiate is not a function'', demo_init)"
    using inherited demo_vms_nobody(4) names(2) by simp_all

  note build = engine_failures_thrown [where st = demo_init and a = "''nobody''"
      and ext = demo_ext and s = "''alice''" and f = "[]" and m = "''x''"
      and x = "''contract nobody not found''" and st' = demo_init]
  have w5: "callInstantiate demo_ext demo_init ''alice'' [] ''nobody'' ''x''
              = (Thrown ''contract nobody not found'', demo_init)"
    using build w1 by simp

  note orphan = engine_failures_thrown [where st = demo_orphan and a = demo_orphan_addr
      and ext = demo_ext and s = "''alice''" and f = "[]" and m = "''init''"
      and ci = "\<lparr>codeId = 5, creator = ''alice'', admin = None, label = [], created = 1\<rparr>"
      and x = "''code 5 not found''" and st' = demo_orphan]
  have w2: "buildVM demo_ext demo_orphan demo_orphan_addr
              = (Thrown ''code 5 not found'', demo_orphan)"
    using orphan demo_orphan_facts five by simp
  have call5: "callInstantiate demo_ext demo_orphan ''alice'' [] demo_orphan_addr ''init''
              = (Thrown ''code 5 not found'', demo_orphan)"
    using orphan w2 by simp
  note inst5 = engine_failures_thrown [where st = demo_init and ext = demo_ext
      and s = "''alice''" and f = "[]" and c = 5 and m = "''init''" and fuel = 0
      and x = "''code 5 not found''" and st' = demo_orphan]
  have w6: "instantiateContract 0 demo_ext demo_init ''alice'' [] 5 ''init''
              = (Thrown ''code 5 not found'', demo_orphan)"
    using inst5 call5 by (simp add: demo_orphan_facts(1))

  note live = engine_failures_thrown [where st = demo_live and a = demo_addr
      and ext = demo_ext and fuel = 0 and sm = demo_lost_sub and x = ?no and st' = demo_live]
  have w13: "executeSubmsg (Suc 0) demo_ext demo_live demo_addr demo_lost_sub
              = (Thrown ?no, demo_live)"
    using live demo_lost_route [OF demo_vms_nobody(2), of demo_addr] by simp
  note written = engine_failures_thrown [where st = demo_written and a = demo_addr
      and ext = demo_ext and fuel = 0 and sm = demo_lost_sub and x = ?no
      and st' = demo_written]
  have sub_written: "executeSubmsg (Suc 0) demo_ext demo_written demo_addr demo_lost_sub
              = (Thrown ?no, demo_written)"
    using written demo_lost_route [OF demo_vms_nobody(3), of demo_addr] by simp

  have hcr: "handleContractResponse (Suc 0) demo_ext demo_live demo_addr [demo_lost_sub] res
               = (Thrown ?no, demo_live)" for res
  proof -
    have nil: "handleContractResponse (Suc 0) demo_ext demo_live demo_addr [] res
                 = (Returned (Ok res), demo_live)"
      by (simp add: handleContractResponse.simps handleContractResponse_loop.simps)
    show ?thesis
      using engine_failures_thrown [where st = demo_live and a = demo_addr
              and ext = demo_ext and fuel = "Suc 0" and pre = "[]" and res = res
              and res' = res and st' = demo_live and sm = demo_lost_sub and x = ?no
              and st'' = demo_live and rest = "[]"]
            nil w13
      by simp
  qed
  have w12: "handleContractResponse (Suc 0) demo_ext demo_live demo_addr
        [demo_sub 1 ''write'' Never, demo_lost_sub, demo_sub 2 ''fail'' Never]
        \<lparr>app_events = [demo_execute_event], app_data = None\<rparr>
       = (Thrown ?no, demo_written)"
    using engine_failures_thrown [where st = demo_live and a = demo_addr
            and ext = demo_ext and fuel = "Suc 0" and pre = "[demo_sub 1 ''write'' Never]"
            and res = "\<lparr>app_events = [demo_execute_event], app_data = None\<rparr>"
            and res' = "\<lparr>app_events = [demo_execute_event, demo_execute_event],
                          app_data = None\<rparr>"
            and st' = demo_written and sm = demo_lost_sub and x = ?no
            and st'' = demo_written and rest = "[demo_sub 2 ''fail'' Never]"]
          demo_hcr_write [of 1] sub_written
    by simp

  have w7: "instantiateContract (Suc 0) demo_ext demo_created ''alice'' [] 1 ''lost''
              = (Thrown ?no, demo_live)"
    using engine_failures_thrown [where st = demo_created and ext = demo_ext
            and s = "''alice''" and f = "[]" and c = 1 and m = "''lost''" and fuel = "Suc 0"
            and R = ?R and st' = demo_live]
          demo_lost_calls(1)
    by (simp add: demo_register hcr empty_response_def)
  have w9: "executeContract (Suc 0) demo_ext demo_live ''alice'' [] demo_addr ''lost''
              = (Thrown ?no, demo_live)"
    using engine_failures_thrown [where st = demo_live and a = demo_addr and ext = demo_ext
            and s = "''alice''" and f = "[]" and m = "''lost''" and fuel = "Suc 0"
            and R = ?R and st' = demo_live]
          demo_lost_calls(2)
    by (simp add: hcr empty_response_def)
  have w11: "reply (Suc 0) demo_ext demo_live demo_addr
               \<lparr>reply_id = 9, reply_result = RustError ''e''\<rparr> = (Thrown ?no, demo_live)"
    using engine_failures_thrown [where st = demo_live and a = demo_addr and ext = demo_ext
            and rm = "\<lparr>reply_id = 9, reply_result = RustError ''e''\<rparr>" and fuel = "Suc 0"
            and R = ?R and st' = demo_live]
          demo_lost_calls(3)
    by (simp add: hcr empty_response_def)

  have rep: "reply 0 demo_ext demo_live ''nobody'' rm = (Thrown ?no, demo_live)" for rm
    using engine_failures_thrown [where st = demo_live and a = "''nobody''"
            and ext = demo_ext and rm = rm and fuel = 0 and x = ?no and st' = demo_live]
          demo_vms_nobody(2) names(1)
    by simp
  have w14: "executeSubmsg (Suc 0) demo_ext demo_live ''nobody'' (demo_sub 3 ''echo'' Success)
              = (Thrown ?no, demo_live)"
    using engine_failures_thrown [where st = demo_live and a = "''nobody''"
            and ext = demo_ext and fuel = 0 and sm = "demo_sub 3 ''echo'' Success"
            and r = "\<lparr>app_events = [demo_execute_event], app_data = Some ''hello''\<rparr>"
            and st' = demo_live and x = ?no and st'' = demo_live]
          rep
    by (simp add: demo_route demo_exec_echo) (simp add: demo_sub_def)
  have w15: "executeSubmsg (Suc 0) demo_ext demo_live ''nobody'' (demo_sub 3 ''fail'' Error)
              = (Thrown ?no, demo_live)"
    using engine_failures_thrown [where st = demo_live and a = "''nobody''"
            and ext = demo_ext and fuel = 0 and sm = "demo_sub 3 ''fail'' Error"
            and e = "''boom''" and st' = demo_live and x = ?no and st'' = demo_live]
          rep
    by (simp add: demo_route demo_exec_fail_live) (simp add: demo_sub_def)
  show ?thesis
    by (simp only: w1 w2 w3 w4 w5 w6 w7 w8 w9 w10 w11 w12 w13 w14 w15 w16 simp_thms)
qed

text \<open>
  A counterexample to claim C10 as it is stated: for an unknown query variant
  \<open>handleQuery\<close> returns \<open>Err\<close> and throws nothing.
\<close>

theorem unknown_query_returned_counterexample:
  "handleQuery demo_ext demo_init UnknownWasmQuery
     = (Returned (Err ''Unknown wasm query''), demo_init)"
  by (simp add: handleQuery_def)

end
